theory Spec2Isabelle
  imports Complex_Main
begin

section \<open>Reflection prediction: the Reeke index generator and the prediction drivers\<close>

text \<open>
  This development embeds \<^verbatim>\<open>reeke_index_generator.h\<close> and, of
  \<^verbatim>\<open>reflection_predictor.h\<close>, the per-index prediction of the scan static predictor
  and the prediction over the frames of the scan varying predictor. A C++ \<^verbatim>\<open>double\<close>
  is read as a real number: rounding, infinities and NaN are outside the model, and a
  division by zero has HOL's value 0. A C++ \<^verbatim>\<open>int\<close> is read as an unbounded integer;
  signed overflow is undefined in the source and is not modelled.
\<close>

subsection \<open>Vectors and matrices (scitbx)\<close>

type_synonym vec3 = "real \<times> real \<times> real"
type_synonym vec2 = "real \<times> real"
type_synonym vec2i = "int \<times> int"
type_synonym mat3 = "real list"
type_synonym miller_index = "int \<times> int \<times> int"

text \<open>A \<^verbatim>\<open>mat3\<close> is its nine elements in row-major order, read with \<open>!\<close>.\<close>

fun dot :: "vec3 \<Rightarrow> vec3 \<Rightarrow> real" where
  "dot (a0, a1, a2) (b0, b1, b2) = a0 * b0 + a1 * b1 + a2 * b2"

fun cross :: "vec3 \<Rightarrow> vec3 \<Rightarrow> vec3" where
  "cross (a0, a1, a2) (b0, b1, b2) =
     (a1 * b2 - b1 * a2, a2 * b0 - b2 * a0, a0 * b1 - b0 * a1)"

fun neg :: "vec3 \<Rightarrow> vec3" where
  "neg (a0, a1, a2) = (- a0, - a1, - a2)"

definition vlength :: "vec3 \<Rightarrow> real" where
  "vlength a = sqrt (dot a a)"

fun normalize :: "vec3 \<Rightarrow> vec3" where
  "normalize (a0, a1, a2) =
     (a0 / vlength (a0, a1, a2), a1 / vlength (a0, a1, a2), a2 / vlength (a0, a1, a2))"

definition get_row :: "mat3 \<Rightarrow> nat \<Rightarrow> vec3" where
  "get_row m i = (m ! (3 * i), m ! (3 * i + 1), m ! (3 * i + 2))"

definition transpose :: "mat3 \<Rightarrow> mat3" where
  "transpose m = [m ! 0, m ! 3, m ! 6, m ! 1, m ! 4, m ! 7, m ! 2, m ! 5, m ! 8]"

text \<open>
  \<^verbatim>\<open>transpose_multiply(a, b, ar, ac, bc, out)\<close> stores the \<open>ac \<times> bc\<close> product of the
  transpose of \<open>a\<close> (\<open>ar \<times> ac\<close>) with \<open>b\<close> (\<open>ar \<times> bc\<close>), both row-major.
\<close>

definition transpose_multiply :: "real list \<Rightarrow> real list \<Rightarrow> nat \<Rightarrow> nat \<Rightarrow> nat \<Rightarrow> real list" where
  "transpose_multiply a b ar ac bc =
     map (\<lambda>ij. \<Sum>k\<leftarrow>[0..<ar]. a ! (k * ac + ij div bc) * b ! (k * bc + ij mod bc)) [0..<ac * bc]"

text \<open>
  The product of the permutation matrix with a Miller index. The source multiplies a
  matrix of \<^verbatim>\<open>std::size_t\<close> with a vector of \<^verbatim>\<open>int\<close> and converts back; with entries 0
  and 1 the result is the integer product.
\<close>

fun mat_mul_index :: "int list \<Rightarrow> miller_index \<Rightarrow> miller_index" where
  "mat_mul_index m (p, q, r) =
     (m ! 0 * p + m ! 1 * q + m ! 2 * r,
      m ! 3 * p + m ! 4 * q + m ! 5 * r,
      m ! 6 * p + m ! 7 * q + m ! 8 * r)"

definition is_zero :: "miller_index \<Rightarrow> bool" where
  "is_zero h = (h = (0, 0, 0))"

text \<open>\<^verbatim>\<open>af::max_index\<close>: the position of the first maximum.\<close>

definition max_index :: "real list \<Rightarrow> nat" where
  "max_index a = foldl (\<lambda>res i. if a ! res < a ! i then i else res) 0 [1..<length a]"

text \<open>\<^verbatim>\<open>af::min\<close> and \<^verbatim>\<open>af::max\<close> of an array, called on non-empty arrays only.\<close>

definition af_min :: "real list \<Rightarrow> real" where
  "af_min a = foldl min (hd a) (tl a)"

definition af_max :: "real list \<Rightarrow> real" where
  "af_max a = foldl max (hd a) (tl a)"

text \<open>The conversion \<^verbatim>\<open>(int)x\<close> of a double: truncation towards zero.\<close>

definition int_of_double :: "real \<Rightarrow> int" where
  "int_of_double x = (if 0 \<le> x then \<lfloor>x\<rfloor> else \<lceil>x\<rceil>)"

definition swap :: "'a list \<Rightarrow> nat \<Rightarrow> nat \<Rightarrow> 'a list" where
  "swap xs i j = xs[i := xs ! j, j := xs ! i]"

subsection \<open>Helpers of the reeke\_detail namespace\<close>

fun sort2 :: "'a::linorder \<times> 'a \<Rightarrow> 'a \<times> 'a" where
  "sort2 (a0, a1) = (if a0 > a1 then (a1, a0) else (a0, a1))"

text \<open>
  Modelled from the spec: \<^verbatim>\<open>solve_quad\<close> is declared in
  \<^verbatim>\<open>scan_varying_helpers.h\<close>, which is not among the sources. It returns the 0, 1 or 2
  real roots of \<open>a x\<^sup>2 + b x + c = 0\<close> in ascending order: for \<open>a = 0\<close> the single root
  \<open>- c / b\<close> (none if \<open>b = 0\<close>); none for a negative discriminant; one for a zero
  discriminant.
\<close>

definition solve_quad :: "real \<Rightarrow> real \<Rightarrow> real \<Rightarrow> real list" where
  "solve_quad a b c =
     (if a = 0 then (if b = 0 then [] else [- c / b])
      else let d = b * b - 4 * a * c in
        if d < 0 then []
        else if d = 0 then [- b / (2 * a)]
        else [min ((- b - sqrt d) / (2 * a)) ((- b + sqrt d) / (2 * a)),
              max ((- b - sqrt d) / (2 * a)) ((- b + sqrt d) / (2 * a))])"

record permute_axes =
  pa_index :: "nat list"
  pa_permutation :: "int list"

definition permute_axes :: "mat3 \<Rightarrow> vec3 \<Rightarrow> vec3 \<Rightarrow> permute_axes" where
  "permute_axes ub axis source =
     (let rl_dirs = [normalize (ub ! 0, ub ! 3, ub ! 6),
                     normalize (ub ! 1, ub ! 4, ub ! 7),
                     normalize (ub ! 2, ub ! 5, ub ! 8)];
          p_index = max_index [\<bar>dot (rl_dirs ! 0) source\<bar>,
                               \<bar>dot (rl_dirs ! 1) source\<bar>,
                               \<bar>dot (rl_dirs ! 2) source\<bar>];
          index1 = swap [0, 1, 2] 0 p_index;
          r_index = max_index [\<bar>dot (rl_dirs ! (index1 ! 1)) axis\<bar>,
                               \<bar>dot (rl_dirs ! (index1 ! 2)) axis\<bar>];
          index2 = swap index1 2 (r_index + 1)
      in \<lparr> pa_index = index2,
           pa_permutation =
             [0, 0, 0, 0, 0, 0, 0, 0, 0][3 * (index2 ! 0) + 0 := 1,
               3 * (index2 ! 1) + 1 := 1,
               3 * (index2 ! 2) + 2 := 1] \<rparr>)"

record permute_matrix = permute_axes +
  pm_rlv_beg :: mat3
  pm_rlv_end :: mat3

definition permuted_rows :: "mat3 \<Rightarrow> nat list \<Rightarrow> mat3" where
  "permuted_rows ub index =
     [ub ! (index ! 0), ub ! (index ! 0 + 3), ub ! (index ! 0 + 6),
      ub ! (index ! 1), ub ! (index ! 1 + 3), ub ! (index ! 1 + 6),
      ub ! (index ! 2), ub ! (index ! 2 + 3), ub ! (index ! 2 + 6)]"

definition permute_matrix :: "mat3 \<Rightarrow> mat3 \<Rightarrow> vec3 \<Rightarrow> vec3 \<Rightarrow> permute_matrix" where
  "permute_matrix ub_beg ub_end axis source =
     (let pa = permute_axes ub_beg axis source
      in \<lparr> pa_index = pa_index pa, pa_permutation = pa_permutation pa,
           pm_rlv_beg = permuted_rows ub_beg (pa_index pa),
           pm_rlv_end = permuted_rows ub_end (pa_index pa) \<rparr>)"

text \<open>The 3 by 4 matrix \<open>P'\<close>: the permuted setting matrix with the column \<open>- source\<close>.\<close>

fun augment :: "mat3 \<Rightarrow> vec3 \<Rightarrow> real list" where
  "augment p (s0, s1, s2) =
     [p ! 0, p ! 1, p ! 2, - s0,
      p ! 3, p ! 4, p ! 5, - s1,
      p ! 6, p ! 7, p ! 8, - s2]"

definition compute_constant_with_p :: "mat3 \<Rightarrow> mat3 \<Rightarrow> vec3 \<Rightarrow> vec3 \<Rightarrow> real list" where
  "compute_constant_with_p rlv_beg rlv_end axis source =
     (let p_beg = transpose rlv_beg;
          p_end = transpose rlv_end;
          pp_beg = augment p_beg source;
          pp_end = augment p_end source;
          t_beg = transpose_multiply pp_beg pp_beg 3 4 4;
          t_end = transpose_multiply pp_end pp_end 3 4 4
      in [t_beg ! 10,
          t_beg ! 11 * t_beg ! 11,
          t_end ! 11 * t_end ! 11,
          t_beg ! 2 * t_beg ! 11 - t_beg ! 3 * t_beg ! 10,
          t_end ! 2 * t_end ! 11 - t_end ! 3 * t_end ! 10,
          t_beg ! 2 * t_beg ! 2 - t_beg ! 0 * t_beg ! 10,
          t_beg ! 6 * t_beg ! 11 - t_beg ! 7 * t_beg ! 10,
          t_end ! 6 * t_end ! 11 - t_end ! 7 * t_end ! 10,
          t_beg ! 2 * t_beg ! 6 - t_beg ! 1 * t_beg ! 10,
          t_beg ! 6 * t_beg ! 6 - t_beg ! 5 * t_beg ! 10,
          2 * t_beg ! 2,
          2 * t_beg ! 6,
          t_beg ! 0,
          t_beg ! 5,
          2 * t_beg ! 1,
          2 * t_beg ! 11,
          2 * t_end ! 11,
          2 * t_beg ! 7,
          2 * t_end ! 7,
          2 * t_beg ! 3,
          2 * t_end ! 3])"

subsection \<open>The Reeke model\<close>

text \<open>
  A failed \<^verbatim>\<open>DIALS_ASSERT\<close> throws an error that carries the text of the condition.
\<close>

datatype error = AssertionError string

text \<open>
  The data members of the class \<^verbatim>\<open>ReekeModel\<close>; the member \<^verbatim>\<open>x_\<close> of the source is
  the field \<open>m_x\<close>.
\<close>

record ReekeModel =
  m_permutation :: "int list"
  m_source :: vec3
  m_axis :: vec3
  m_cp :: "real list"
  m_p_lim :: vec2i
  m_dstarmax :: real
  m_dstarmax2 :: real
  m_wavelength :: real
  m_wavelength_sq :: real
  m_margin :: int
  m_ewald_p_lim_beg :: vec2
  m_ewald_p_lim_end :: vec2
  m_res_p_lim_beg :: vec2
  m_res_p_lim_end :: vec2

definition sign_of :: "real \<Rightarrow> int" where
  "sign_of x = (if x \<ge> 0 then 1 else - 1)"

definition compute_ewald_sphere_p_limits ::
  "ReekeModel \<Rightarrow> vec3 \<Rightarrow> vec3 \<Rightarrow> real \<Rightarrow> real \<Rightarrow> real \<Rightarrow> ReekeModel" where
  "compute_ewald_sphere_p_limits m v_beg v_end dp_beg dp_end p_dist =
     (let sign = sign_of (dot v_beg (m_source m));
          m1 = m\<lparr> m_ewald_p_lim_beg := sort2
                 (- of_int sign * (vlength (m_source m) - dp_beg) / p_dist,
                  of_int sign * (vlength (m_source m) + dp_beg) / p_dist) \<rparr>;
          sign = sign_of (dot v_end (m_source m1))
      in m1\<lparr> m_ewald_p_lim_end := sort2
                 (- of_int sign * (vlength (m_source m1) - dp_end) / p_dist,
                  of_int sign * (vlength (m_source m1) + dp_end) / p_dist) \<rparr>)"

definition compute_resolution_p_limits ::
  "ReekeModel \<Rightarrow> vec3 \<Rightarrow> vec3 \<Rightarrow> real \<Rightarrow> real \<Rightarrow> real \<Rightarrow> error + ReekeModel" where
  "compute_resolution_p_limits m v_beg v_end dp_beg dp_end p_dist =
     (let sin_theta = 0.5 * m_wavelength m * m_dstarmax m in
      if \<not> (sin_theta \<le> 1 \<and> sin_theta \<ge> - 1)
      then Inl (AssertionError ''sin_theta <= 1.0 && sin_theta >= -1.0'')
      else
        let sin_2theta = sin (2 * arcsin sin_theta);
            sign = sign_of (dot v_end (m_source m));
            e = 2 * sin_theta * sin_theta * dp_beg;
            f = sin_2theta * sqrt (max (1 / m_wavelength_sq m - dp_beg * dp_beg) 0);
            m1 = m\<lparr> m_res_p_lim_beg := sort2
                   ((of_int sign * e - f) / p_dist, (of_int sign * e + f) / p_dist) \<rparr>;
            e = 2 * sin_theta * sin_theta * dp_end;
            f = sin_2theta * sqrt (max (1 / m_wavelength_sq m1 - dp_end * dp_end) 0)
        in Inr (m1\<lparr> m_res_p_lim_end := sort2
                   ((of_int sign * e - f) / p_dist, (of_int sign * e + f) / p_dist) \<rparr>))"

text \<open>
  The selection between the Ewald and the resolution limits and the conversion to the
  integer interval, the last two statements of \<^verbatim>\<open>compute_p_limits\<close>.
\<close>

definition select_p_limits :: "ReekeModel \<Rightarrow> int \<Rightarrow> real list" where
  "select_p_limits m sign =
     (if sign < 0 then
        [max (fst (m_res_p_lim_beg m)) (fst (m_ewald_p_lim_beg m)),
         max (fst (m_res_p_lim_end m)) (fst (m_ewald_p_lim_end m)),
         max (snd (m_res_p_lim_beg m)) (snd (m_ewald_p_lim_beg m)),
         max (snd (m_res_p_lim_end m)) (snd (m_ewald_p_lim_end m))]
      else
        [min (fst (m_res_p_lim_beg m)) (fst (m_ewald_p_lim_beg m)),
         min (fst (m_res_p_lim_end m)) (fst (m_ewald_p_lim_end m)),
         min (snd (m_res_p_lim_beg m)) (snd (m_ewald_p_lim_beg m)),
         min (snd (m_res_p_lim_end m)) (snd (m_ewald_p_lim_end m))])"

text \<open>
  The unit vector normal to the planes of constant \<open>p\<close>, pointing in the direction of
  increasing \<open>p\<close>: the first statements of \<^verbatim>\<open>compute_p_limits\<close>, for one orientation.
\<close>

definition oriented_normal :: "mat3 \<Rightarrow> vec3" where
  "oriented_normal rlv =
     (let rlv0 = get_row rlv 0;
          rlv1 = get_row rlv 1;
          rlv2 = get_row rlv 2;
          v = normalize (cross rlv1 rlv2)
      in if dot rlv0 v < 0 then neg v else v)"

definition compute_p_limits :: "ReekeModel \<Rightarrow> mat3 \<Rightarrow> mat3 \<Rightarrow> error + ReekeModel" where
  "compute_p_limits m rlv_beg rlv_end =
     (let v_beg = oriented_normal rlv_beg;
          v_end = oriented_normal rlv_end;
          p_dist = \<bar>dot (get_row rlv_beg 0) v_beg\<bar>;
          dp_beg = \<bar>dot v_beg (m_source m)\<bar>;
          dp_end = \<bar>dot v_end (m_source m)\<bar>;
          m1 = compute_ewald_sphere_p_limits m v_beg v_end dp_beg dp_end p_dist
      in case compute_resolution_p_limits m1 v_beg v_end dp_beg dp_end p_dist of
           Inl e \<Rightarrow> Inl e
         | Inr m2 \<Rightarrow>
             let limits = select_p_limits m2 (sign_of (dot v_end (m_source m2)))
             in Inr (m2\<lparr> m_p_lim :=
                      (int_of_double (af_min limits) - m_margin m2,
                       int_of_double (af_max limits) + m_margin m2 + 1) \<rparr>))"

text \<open>
  The constructor. The members that \<^verbatim>\<open>compute_p_limits\<close> assigns start as \<open>(0, 0)\<close>.
\<close>

definition ReekeModel ::
  "mat3 \<Rightarrow> mat3 \<Rightarrow> vec3 \<Rightarrow> vec3 \<Rightarrow> real \<Rightarrow> int \<Rightarrow> error + ReekeModel" where
  "ReekeModel ub_beg ub_end axis source dmin margin =
     (let wavelength = 1 / vlength source;
          dstarmax = 1 / dmin;
          perm = permute_matrix ub_beg ub_end axis source;
          cp = compute_constant_with_p (pm_rlv_beg perm) (pm_rlv_end perm) axis source
      in compute_p_limits
           \<lparr> m_permutation = pa_permutation perm,
             m_source = source, m_axis = axis,
             m_cp = cp,
             m_p_lim = (0, 0),
             m_dstarmax = dstarmax, m_dstarmax2 = dstarmax * dstarmax,
             m_wavelength = wavelength, m_wavelength_sq = wavelength * wavelength,
             m_margin = margin,
             m_ewald_p_lim_beg = (0, 0), m_ewald_p_lim_end = (0, 0),
             m_res_p_lim_beg = (0, 0), m_res_p_lim_end = (0, 0) \<rparr>
           (pm_rlv_beg perm) (pm_rlv_end perm))"

definition p_limits :: "ReekeModel \<Rightarrow> vec2i" where
  "p_limits m = m_p_lim m"

definition resolution_p_limits :: "ReekeModel \<Rightarrow> vec2 \<times> vec2" where
  "resolution_p_limits m = (m_res_p_lim_beg m, m_res_p_lim_end m)"

definition ewald_sphere_p_limits :: "ReekeModel \<Rightarrow> vec2 \<times> vec2" where
  "ewald_sphere_p_limits m = (m_ewald_p_lim_beg m, m_ewald_p_lim_end m)"

text \<open>An interval of doubles widened by the margin and converted to integers.\<close>

definition widen :: "ReekeModel \<Rightarrow> real \<Rightarrow> real \<Rightarrow> vec2i" where
  "widen m lo hi = (int_of_double lo - m_margin m, int_of_double hi + m_margin m)"

definition resolution_q_limits :: "ReekeModel \<Rightarrow> int \<Rightarrow> vec2i option" where
  "resolution_q_limits m p =
     (let a = m_cp m ! 9;
          b = 2 * of_int p * m_cp m ! 8;
          c = of_int (p * p) * m_cp m ! 5 + m_cp m ! 0 * m_dstarmax2 m;
          limits = solve_quad a b c
      in if length limits = 0 then None
         else Some (widen m (af_min limits) (af_max limits)))"

definition ewald_sphere_q_limits :: "ReekeModel \<Rightarrow> int \<Rightarrow> vec2i option" where
  "ewald_sphere_q_limits m p =
     (let a = m_cp m ! 9;
          b = 2 * (m_cp m ! 6 + of_int p * m_cp m ! 8);
          c = m_cp m ! 1 + of_int p * (2 * m_cp m ! 3 + of_int p * m_cp m ! 5);
          limits_beg = solve_quad a b c;
          b = 2 * (m_cp m ! 7 + of_int p * m_cp m ! 8);
          c = m_cp m ! 2 + of_int p * (2 * m_cp m ! 4 + of_int p * m_cp m ! 5);
          limits_end = solve_quad a b c;
          limits = limits_beg @ limits_end
      in if length limits = 0 then None
         else Some (widen m (af_min limits) (af_max limits)))"

definition q_limits :: "ReekeModel \<Rightarrow> int \<Rightarrow> vec2i" where
  "q_limits m p =
     (case (resolution_q_limits m p, ewald_sphere_q_limits m p) of
        (Some res_q_lim, Some ewald_q_lim) \<Rightarrow>
          (let limits = sort [fst ewald_q_lim, snd ewald_q_lim, fst res_q_lim, snd res_q_lim]
           in (limits ! 1, limits ! 2 + 1))
      | _ \<Rightarrow> (0, 0))"

text \<open>The five quantities \<^verbatim>\<open>cq\<close> that vary with \<open>p\<close> and are constant with \<open>q\<close>.\<close>

definition compute_cq :: "ReekeModel \<Rightarrow> real \<Rightarrow> real list" where
  "compute_cq m p =
     [p * m_cp m ! 10, p * p * m_cp m ! 12, p * m_cp m ! 14, p * m_cp m ! 19, p * m_cp m ! 20]"

definition resolution_r_limits :: "ReekeModel \<Rightarrow> real \<Rightarrow> real \<Rightarrow> real list \<Rightarrow> vec2i option" where
  "resolution_r_limits m p q cq =
     (let a = m_cp m ! 0;
          b = cq ! 0 + q * m_cp m ! 11;
          c = cq ! 1 + q * q * m_cp m ! 13 + q * cq ! 2 - m_dstarmax2 m;
          limits = solve_quad a b c
      in if length limits = 0 then None
         else Some (widen m (af_min limits) (af_max limits)))"

definition ewald_sphere_r_limits :: "ReekeModel \<Rightarrow> real \<Rightarrow> real \<Rightarrow> real list \<Rightarrow> vec2i list" where
  "ewald_sphere_r_limits m p q cq =
     (let a = m_cp m ! 0;
          b = cq ! 0 + q * m_cp m ! 11 + m_cp m ! 15;
          c = cq ! 1 + q * (cq ! 2 + m_cp m ! 17) + q * q * m_cp m ! 13 + cq ! 3;
          limits_beg = solve_quad a b c;
          b = cq ! 0 + q * m_cp m ! 11 + m_cp m ! 15;
          c = cq ! 1 + q * (cq ! 2 + m_cp m ! 18) + q * q * m_cp m ! 13 + cq ! 4;
          limits_end = solve_quad a b c
      in if length limits_beg > 0 \<and> length limits_end > 0 then
           (let min_beg = af_min limits_beg;
                max_beg = af_max limits_beg;
                min_end = af_min limits_end;
                max_end = af_max limits_end
            in [widen m (min min_beg min_end) (max min_beg min_end),
                widen m (min max_beg max_end) (max max_beg max_end)])
         else
           (if length limits_beg > 0
            then [widen m (af_min limits_beg) (af_max limits_beg)] else []) @
           (if length limits_end > 0
            then [widen m (af_min limits_end) (af_max limits_end)] else []))"

text \<open>
  The body of the loop over the Ewald intervals in \<^verbatim>\<open>r_limits\<close>: the interval is cut to
  the resolution interval and kept, with its upper end made exclusive, when it is not
  empty.
\<close>

fun restrict_to :: "vec2i \<Rightarrow> vec2i \<Rightarrow> vec2i list" where
  "restrict_to (res0, res1) (e0, e1) =
     (let e0 = (if res0 > e0 then res0 else e0);
          e1 = (if res1 < e1 then res1 else e1)
      in if e0 < e1 then [(e0, e1 + 1)] else [])"

text \<open>The final ordering of two ranges in \<^verbatim>\<open>r_limits\<close>.\<close>

definition order_ranges :: "vec2i list \<Rightarrow> vec2i list" where
  "order_ranges result =
     (if length result = 2 then
        (let result = (if fst (result ! 1) < fst (result ! 0) then swap result 0 1 else result);
             result = (if fst (result ! 1) < snd (result ! 0)
                       then result[1 := (snd (result ! 0), snd (result ! 1))] else result)
         in result)
      else result)"

definition r_limits :: "ReekeModel \<Rightarrow> real \<Rightarrow> real \<Rightarrow> vec2i list" where
  "r_limits m p q =
     (let cq = compute_cq m p in
      case resolution_r_limits m p q cq of
        None \<Rightarrow> []
      | Some res_r_lim \<Rightarrow>
          order_ranges (concat (map (restrict_to res_r_lim) (ewald_sphere_r_limits m p q cq))))"

subsection \<open>The index generator\<close>

text \<open>
  \<^verbatim>\<open>next_pqr\<close> keeps its cursors in function-local \<^verbatim>\<open>static\<close> variables: there is one
  copy of them in the program, shared by every \<^verbatim>\<open>ReekeIndexGenerator\<close> object. The
  record \<open>statics\<close> is that copy; an object is its member \<^verbatim>\<open>model_\<close>.
\<close>

record statics =
  st_p :: vec2i
  st_q :: vec2i
  st_r :: "vec2i list"
  st_ridx :: nat
  st_state :: int

definition enter :: int where
  "enter = 0"

definition yield :: int where
  "yield = 1"

text \<open>The statics before the first call: zero-initialised, \<^verbatim>\<open>state = enter\<close>.\<close>

definition initial_statics :: statics where
  "initial_statics = \<lparr> st_p = (0, 0), st_q = (0, 0), st_r = [], st_ridx = 0, st_state = enter \<rparr>"

definition r_lower :: "statics \<Rightarrow> int" where
  "r_lower s = fst (st_r s ! st_ridx s)"

definition r_upper :: "statics \<Rightarrow> int" where
  "r_upper s = snd (st_r s ! st_ridx s)"

text \<open>\<^verbatim>\<open>++r[ridx][0]\<close>, \<^verbatim>\<open>++ridx\<close>, \<^verbatim>\<open>++q[0]\<close> and \<^verbatim>\<open>++p[0]\<close>.\<close>

definition incr_r :: "statics \<Rightarrow> statics" where
  "incr_r s = s\<lparr> st_r := (st_r s)[st_ridx s := (r_lower s + 1, r_upper s)] \<rparr>"

definition incr_ridx :: "statics \<Rightarrow> statics" where
  "incr_ridx s = s\<lparr> st_ridx := st_ridx s + 1 \<rparr>"

definition incr_q :: "statics \<Rightarrow> statics" where
  "incr_q s = s\<lparr> st_q := (fst (st_q s) + 1, snd (st_q s)) \<rparr>"

definition incr_p :: "statics \<Rightarrow> statics" where
  "incr_p s = s\<lparr> st_p := (fst (st_p s) + 1, snd (st_p s)) \<rparr>"

text \<open>
  Each loop of \<^verbatim>\<open>next_pqr\<close> is a function from the statics at its test to the outcome:
  \<open>Some pqr\<close> with the statics at the \<^verbatim>\<open>return\<close> inside the innermost loop, or \<open>None\<close>
  with the statics at the exit of the loop. The innermost loop is entered with
  \<^verbatim>\<open>ridx < r.size()\<close>.
\<close>

function r_loop :: "statics \<Rightarrow> miller_index option \<times> statics" where
  "r_loop s =
     (if st_ridx s < length (st_r s) \<and> r_lower s < r_upper s then
        (let result = (fst (st_p s), fst (st_q s), r_lower s)
         in if \<not> is_zero result then (Some result, s) else r_loop (incr_r s))
      else (None, s))"
  by pat_completeness auto
termination
  by (relation "measure (\<lambda>s. nat (r_upper s - r_lower s))")
     (auto simp: incr_r_def r_lower_def r_upper_def)

declare r_loop.simps [simp del]

lemma r_loop_keeps:
  "st_p (snd (r_loop s)) = st_p s \<and> st_q (snd (r_loop s)) = st_q s \<and>
   st_ridx (snd (r_loop s)) = st_ridx s \<and> st_state (snd (r_loop s)) = st_state s \<and>
   length (st_r (snd (r_loop s))) = length (st_r s)"
proof (induction s rule: r_loop.induct)
  case (1 s)
  show ?case
  proof (cases "st_ridx s < length (st_r s) \<and> r_lower s < r_upper s
                \<and> is_zero (fst (st_p s), fst (st_q s), r_lower s)")
    case True
    then show ?thesis
      using 1 by (subst (1 2 3 4 5) r_loop.simps) (simp add: incr_r_def)
  next
    case False
    then show ?thesis
      by (subst (1 2 3 4 5) r_loop.simps) (auto simp: Let_def)
  qed
qed

function ridx_loop :: "statics \<Rightarrow> miller_index option \<times> statics" where
  "ridx_loop s =
     (if st_ridx s < length (st_r s) then
        (case r_loop s of
           (Some h, s') \<Rightarrow> (Some h, s')
         | (None, s') \<Rightarrow> ridx_loop (incr_ridx s'))
      else (None, s))"
  by pat_completeness auto
termination
proof (relation "measure (\<lambda>s. length (st_r s) - st_ridx s)")
  show "wf (measure (\<lambda>s. length (st_r s) - st_ridx s))" by simp
next
  fix s x y
  assume a: "st_ridx s < length (st_r s)" "(x, y) = r_loop s"
  have "y = snd (r_loop s)" using a(2) by (metis snd_conv)
  then have "st_ridx y = st_ridx s" "length (st_r y) = length (st_r s)"
    using r_loop_keeps[of s] by simp_all
  then show "(incr_ridx y, s) \<in> measure (\<lambda>s. length (st_r s) - st_ridx s)"
    using a(1) by (simp add: incr_ridx_def)
qed

declare ridx_loop.simps [simp del]

lemma ridx_loop_keeps:
  "st_p (snd (ridx_loop s)) = st_p s \<and> st_q (snd (ridx_loop s)) = st_q s \<and>
   st_state (snd (ridx_loop s)) = st_state s"
proof (induction s rule: ridx_loop.induct)
  case (1 s)
  show ?case
  proof (cases "st_ridx s < length (st_r s)")
    case False
    then show ?thesis by (subst (1 2 3) ridx_loop.simps) simp
  next
    case True
    obtain x y where xy: "r_loop s = (x, y)" by (cases "r_loop s")
    have y: "st_p y = st_p s" "st_q y = st_q s" "st_state y = st_state s"
      using r_loop_keeps[of s] xy by simp_all
    show ?thesis
    proof (cases x)
      case None
      then show ?thesis
        using True xy y 1[OF True xy[symmetric] None]
        by (subst (1 2 3) ridx_loop.simps) (simp add: incr_ridx_def)
    next
      case (Some h)
      then show ?thesis
        using True xy y by (subst (1 2 3) ridx_loop.simps) simp
    qed
  qed
qed

function q_loop :: "ReekeModel \<Rightarrow> statics \<Rightarrow> miller_index option \<times> statics" where
  "q_loop m s =
     (if fst (st_q s) < snd (st_q s) then
        (case ridx_loop (s\<lparr> st_r := r_limits m (of_int (fst (st_p s))) (of_int (fst (st_q s))),
                             st_ridx := 0 \<rparr>) of
           (Some h, s') \<Rightarrow> (Some h, s')
         | (None, s') \<Rightarrow> q_loop m (incr_q s'))
      else (None, s))"
  by pat_completeness auto
termination
proof (relation "measure (\<lambda>(m, s). nat (snd (st_q s) - fst (st_q s)))")
  show "wf (measure (\<lambda>(m, s). nat (snd (st_q s) - fst (st_q s))))" by simp
next
  fix m s x y
  assume a: "fst (st_q s) < snd (st_q s)"
    "(x, y) = ridx_loop (s\<lparr> st_r := r_limits m (of_int (fst (st_p s))) (of_int (fst (st_q s))),
                             st_ridx := 0 \<rparr>)"
  have "y = snd (ridx_loop (s\<lparr> st_r := r_limits m (of_int (fst (st_p s))) (of_int (fst (st_q s))),
                             st_ridx := 0 \<rparr>))"
    using a(2) by (metis snd_conv)
  then have "st_q y = st_q s"
    using ridx_loop_keeps[of "s\<lparr> st_r := r_limits m (of_int (fst (st_p s))) (of_int (fst (st_q s))),
                             st_ridx := 0 \<rparr>"] by simp
  then show "((m, incr_q y), m, s) \<in> measure (\<lambda>(m, s). nat (snd (st_q s) - fst (st_q s)))"
    using a(1) by (simp add: incr_q_def)
qed

declare q_loop.simps [simp del]

lemma q_loop_keeps:
  "st_p (snd (q_loop m s)) = st_p s \<and> st_state (snd (q_loop m s)) = st_state s"
proof (induction m s rule: q_loop.induct)
  case (1 m s)
  let ?s0 = "s\<lparr> st_r := r_limits m (of_int (fst (st_p s))) (of_int (fst (st_q s))), st_ridx := 0 \<rparr>"
  show ?case
  proof (cases "fst (st_q s) < snd (st_q s)")
    case False
    then show ?thesis by (subst (1 2) q_loop.simps) simp
  next
    case True
    obtain x y where xy: "ridx_loop ?s0 = (x, y)" by (cases "ridx_loop ?s0")
    have y: "st_p y = st_p s" "st_state y = st_state s"
      using ridx_loop_keeps[of ?s0] xy by simp_all
    show ?thesis
    proof (cases x)
      case None
      then show ?thesis
        using True xy y 1[OF True xy[symmetric] None]
        by (subst (1 2) q_loop.simps) (simp add: incr_q_def)
    next
      case (Some h)
      then show ?thesis
        using True xy y by (subst (1 2) q_loop.simps) simp
    qed
  qed
qed

function p_loop :: "ReekeModel \<Rightarrow> statics \<Rightarrow> miller_index option \<times> statics" where
  "p_loop m s =
     (if fst (st_p s) < snd (st_p s) then
        (case q_loop m (s\<lparr> st_q := q_limits m (fst (st_p s)) \<rparr>) of
           (Some h, s') \<Rightarrow> (Some h, s')
         | (None, s') \<Rightarrow> p_loop m (incr_p s'))
      else (None, s))"
  by pat_completeness auto
termination
proof (relation "measure (\<lambda>(m, s). nat (snd (st_p s) - fst (st_p s)))")
  show "wf (measure (\<lambda>(m, s). nat (snd (st_p s) - fst (st_p s))))" by simp
next
  fix m s x y
  assume a: "fst (st_p s) < snd (st_p s)"
    "(x, y) = q_loop m (s\<lparr> st_q := q_limits m (fst (st_p s)) \<rparr>)"
  have "y = snd (q_loop m (s\<lparr> st_q := q_limits m (fst (st_p s)) \<rparr>))"
    using a(2) by (metis snd_conv)
  then have "st_p y = st_p s"
    using q_loop_keeps[of m "s\<lparr> st_q := q_limits m (fst (st_p s)) \<rparr>"] by simp
  then show "((m, incr_p y), m, s) \<in> measure (\<lambda>(m, s). nat (snd (st_p s) - fst (st_p s)))"
    using a(1) by (simp add: incr_p_def)
qed

declare p_loop.simps [simp del]

text \<open>
  A call with \<^verbatim>\<open>state == yield\<close> jumps to the label inside the innermost loop: it
  goes on with the increment of that loop, and each loop that ends hands over to the
  increment of the loop around it.
\<close>

definition resume :: "ReekeModel \<Rightarrow> statics \<Rightarrow> miller_index option \<times> statics" where
  "resume m s =
     (case r_loop (incr_r s) of
        (Some h, s1) \<Rightarrow> (Some h, s1)
      | (None, s1) \<Rightarrow>
          (case ridx_loop (incr_ridx s1) of
             (Some h, s2) \<Rightarrow> (Some h, s2)
           | (None, s2) \<Rightarrow>
               (case q_loop m (incr_q s2) of
                  (Some h, s3) \<Rightarrow> (Some h, s3)
                | (None, s3) \<Rightarrow> p_loop m (incr_p s3))))"

text \<open>
  The \<^verbatim>\<open>switch\<close> statement: \<open>Some pqr\<close> when it returns at the yield point, \<open>None\<close>
  when control leaves it. A value of \<^verbatim>\<open>state\<close> that matches no label skips it.
\<close>

definition run_switch :: "ReekeModel \<Rightarrow> statics \<Rightarrow> miller_index option \<times> statics" where
  "run_switch m s =
     (if st_state s = enter then p_loop m (s\<lparr> st_state := yield, st_p := p_limits m \<rparr>)
      else if st_state s = yield then resume m s
      else (None, s))"

definition next_pqr :: "ReekeModel \<Rightarrow> statics \<Rightarrow> miller_index \<times> statics" where
  "next_pqr m s =
     (case run_switch m s of
        (Some result, s') \<Rightarrow> (result, s')
      | (None, s') \<Rightarrow> ((0, 0, 0), s'\<lparr> st_state := enter \<rparr>))"

record ReekeIndexGenerator =
  g_model :: ReekeModel

definition ReekeIndexGenerator ::
  "mat3 \<Rightarrow> mat3 \<Rightarrow> vec3 \<Rightarrow> vec3 \<Rightarrow> real \<Rightarrow> int \<Rightarrow> error + ReekeIndexGenerator" where
  "ReekeIndexGenerator ub_beg ub_end axis s0 dmin margin =
     (case ReekeModel ub_beg ub_end axis (neg s0) dmin margin of
        Inl e \<Rightarrow> Inl e
      | Inr m \<Rightarrow> Inr \<lparr> g_model = m \<rparr>)"

text \<open>
  \<^verbatim>\<open>next\<close> of an object, on the shared statics: the index returned and the statics
  after the call.
\<close>

definition next_index :: "ReekeIndexGenerator \<Rightarrow> statics \<Rightarrow> miller_index \<times> statics" where
  "next_index g s =
     (mat_mul_index (m_permutation (g_model g)) (fst (next_pqr (g_model g) s)),
      snd (next_pqr (g_model g) s))"

text \<open>The results of \<open>n\<close> successive calls of \<^verbatim>\<open>next\<close> on one object.\<close>

fun calls :: "ReekeIndexGenerator \<Rightarrow> nat \<Rightarrow> statics \<Rightarrow> miller_index list" where
  "calls g 0 s = []"
| "calls g (Suc n) s = fst (next_index g s) # calls g n (snd (next_index g s))"

subsection \<open>Evaluation on concrete inputs\<close>

lemma upt_0_16: "[0..<16] = [0, 1, 2, 3, 4, 5, 6, 7, 8, 9, 10, 11, 12, 13, 14, 15::nat]"
  by code_simp

lemma upt_0_3: "[0..<3] = [0, 1, 2::nat]"
  by code_simp

lemma transpose_multiply_344:
  "transpose_multiply a b 3 4 4 =
     [a ! 0 * b ! 0 + a ! 4 * b ! 4 + a ! 8 * b ! 8,
      a ! 0 * b ! 1 + a ! 4 * b ! 5 + a ! 8 * b ! 9,
      a ! 0 * b ! 2 + a ! 4 * b ! 6 + a ! 8 * b ! 10,
      a ! 0 * b ! 3 + a ! 4 * b ! 7 + a ! 8 * b ! 11,
      a ! 1 * b ! 0 + a ! 5 * b ! 4 + a ! 9 * b ! 8,
      a ! 1 * b ! 1 + a ! 5 * b ! 5 + a ! 9 * b ! 9,
      a ! 1 * b ! 2 + a ! 5 * b ! 6 + a ! 9 * b ! 10,
      a ! 1 * b ! 3 + a ! 5 * b ! 7 + a ! 9 * b ! 11,
      a ! 2 * b ! 0 + a ! 6 * b ! 4 + a ! 10 * b ! 8,
      a ! 2 * b ! 1 + a ! 6 * b ! 5 + a ! 10 * b ! 9,
      a ! 2 * b ! 2 + a ! 6 * b ! 6 + a ! 10 * b ! 10,
      a ! 2 * b ! 3 + a ! 6 * b ! 7 + a ! 10 * b ! 11,
      a ! 3 * b ! 0 + a ! 7 * b ! 4 + a ! 11 * b ! 8,
      a ! 3 * b ! 1 + a ! 7 * b ! 5 + a ! 11 * b ! 9,
      a ! 3 * b ! 2 + a ! 7 * b ! 6 + a ! 11 * b ! 10,
      a ! 3 * b ! 3 + a ! 7 * b ! 7 + a ! 11 * b ! 11]"
  unfolding transpose_multiply_def
  by (simp add: upt_0_16 upt_0_3)

lemma max_index3:
  "max_index [a, b, c] = (if a < b then (if b < c then 2 else 1) else (if a < c then 2 else 0))"
  by (simp add: max_index_def upt_rec numeral_3_eq_3 numeral_2_eq_2)

lemma max_index2: "max_index [a, b] = (if a < b then 1 else 0)"
  by (simp add: max_index_def upt_rec numeral_2_eq_2)

lemmas limits_defs =
  q_limits_def r_limits_def resolution_q_limits_def ewald_sphere_q_limits_def
  resolution_r_limits_def ewald_sphere_r_limits_def compute_cq_def widen_def
  order_ranges_def solve_quad_def af_min_def af_max_def swap_def Let_def

lemma int_of_double_small: "- 1 < x \<Longrightarrow> x < 1 \<Longrightarrow> int_of_double x = 0"
  by (auto simp: int_of_double_def floor_eq_iff ceiling_eq_iff)

lemma int_of_double_floor:
  "int_of_double x = (if 0 \<le> x \<or> x \<in> \<int> then \<lfloor>x\<rfloor> else \<lfloor>x\<rfloor> + 1)"
proof (cases "x \<in> \<int>")
  case True
  then show ?thesis by (auto simp: int_of_double_def elim: Ints_cases)
next
  case False
  then have "x \<noteq> of_int \<lfloor>x\<rfloor>" by (metis Ints_of_int)
  then have "\<lceil>x\<rceil> = \<lfloor>x\<rfloor> + 1" by (simp add: ceiling_altdef)
  then show ?thesis using False by (simp add: int_of_double_def)
qed

text \<open>
  The first boundary scenario of the specification: the identity orientation at both
  ends, the rotation axis \<open>(1, 0, 0)\<close>, the beam \<open>s0 = (0, 0, 1)\<close> (so the model's source
  is \<open>(0, 0, - 1)\<close>) and \<open>dmin = 2\<close>. The constructor yields \<open>unit_model margin\<close>.
\<close>

definition unit_model :: "int \<Rightarrow> ReekeModel" where
  "unit_model margin =
     \<lparr> m_permutation = [0, 0, 1, 0, 1, 0, 1, 0, 0],
       m_source = (0, 0, - 1), m_axis = (1, 0, 0),
       m_cp = [1, 0, 0, - 1, - 1, - 1, 0, 0, 0, - 1, 0, 0, 1, 1, 0, 0, 0, 0, 0, 2, 2],
       m_p_lim = (- margin, margin + 1),
       m_dstarmax = 1 / 2, m_dstarmax2 = 1 / 4,
       m_wavelength = 1, m_wavelength_sq = 1,
       m_margin = margin,
       m_ewald_p_lim_beg = (- 2, 0), m_ewald_p_lim_end = (- 2, 0),
       m_res_p_lim_beg = (- (1 / 8), - (1 / 8)),
       m_res_p_lim_end = (- (1 / 8), - (1 / 8)) \<rparr>"

lemma permute_matrix_unit:
  "permute_matrix [1, 0, 0, 0, 1, 0, 0, 0, 1] ub_end (1, 0, 0) (0, 0, - 1) =
     \<lparr> pa_index = [2, 1, 0], pa_permutation = [0, 0, 1, 0, 1, 0, 1, 0, 0],
       pm_rlv_beg = [0, 0, 1, 0, 1, 0, 1, 0, 0],
       pm_rlv_end = [ub_end ! 2, ub_end ! 5, ub_end ! 8,
                     ub_end ! 1, ub_end ! 4, ub_end ! 7,
                     ub_end ! 0, ub_end ! 3, ub_end ! 6] \<rparr>"
  by (simp add: permute_matrix_def permuted_rows_def permute_axes_def vlength_def
        max_index3 max_index2 swap_def Let_def)

lemma compute_constant_with_p_unit:
  "compute_constant_with_p [0, 0, 1, 0, 1, 0, 1, 0, 0] [0, 0, 1, 0, 1, 0, 1, 0, 0]
     (1, 0, 0) (0, 0, - 1) =
     [1, 0, 0, - 1, - 1, - 1, 0, 0, 0, - 1, 0, 0, 1, 1, 0, 0, 0, 0, 0, 2, 2]"
  by (simp add: compute_constant_with_p_def transpose_multiply_344 transpose_def Let_def)

lemma oriented_normal_unit: "oriented_normal [0, 0, 1, 0, 1, 0, 1, 0, 0] = (0, 0, 1)"
  by (simp add: oriented_normal_def get_row_def vlength_def Let_def)

lemma compute_ewald_sphere_p_limits_unit:
  "compute_ewald_sphere_p_limits
     \<lparr> m_permutation = perm, m_source = (0, 0, - 1), m_axis = axis, m_cp = cp,
       m_p_lim = (0, 0), m_dstarmax = dstarmax, m_dstarmax2 = dstarmax2,
       m_wavelength = 1, m_wavelength_sq = 1, m_margin = margin,
       m_ewald_p_lim_beg = (0, 0), m_ewald_p_lim_end = (0, 0),
       m_res_p_lim_beg = (0, 0), m_res_p_lim_end = (0, 0) \<rparr> (0, 0, 1) (0, 0, 1) 1 1 1 =
     \<lparr> m_permutation = perm, m_source = (0, 0, - 1), m_axis = axis, m_cp = cp,
       m_p_lim = (0, 0), m_dstarmax = dstarmax, m_dstarmax2 = dstarmax2,
       m_wavelength = 1, m_wavelength_sq = 1, m_margin = margin,
       m_ewald_p_lim_beg = (- 2, 0), m_ewald_p_lim_end = (- 2, 0),
       m_res_p_lim_beg = (0, 0), m_res_p_lim_end = (0, 0) \<rparr>"
  by (simp add: compute_ewald_sphere_p_limits_def sign_of_def vlength_def Let_def)

lemma compute_resolution_p_limits_unit:
  "compute_resolution_p_limits
     \<lparr> m_permutation = perm, m_source = (0, 0, - 1), m_axis = axis, m_cp = cp,
       m_p_lim = (0, 0), m_dstarmax = 1 / 2, m_dstarmax2 = 1 / 4,
       m_wavelength = 1, m_wavelength_sq = 1, m_margin = margin,
       m_ewald_p_lim_beg = (- 2, 0), m_ewald_p_lim_end = (- 2, 0),
       m_res_p_lim_beg = (0, 0), m_res_p_lim_end = (0, 0) \<rparr> (0, 0, 1) (0, 0, 1) 1 1 1 =
   Inr \<lparr> m_permutation = perm, m_source = (0, 0, - 1), m_axis = axis, m_cp = cp,
       m_p_lim = (0, 0), m_dstarmax = 1 / 2, m_dstarmax2 = 1 / 4,
       m_wavelength = 1, m_wavelength_sq = 1, m_margin = margin,
       m_ewald_p_lim_beg = (- 2, 0), m_ewald_p_lim_end = (- 2, 0),
       m_res_p_lim_beg = (- (1 / 8), - (1 / 8)),
       m_res_p_lim_end = (- (1 / 8), - (1 / 8)) \<rparr>"
  by (simp add: compute_resolution_p_limits_def sign_of_def Let_def)

lemma compute_p_limits_unit:
  "compute_p_limits
     \<lparr> m_permutation = perm, m_source = (0, 0, - 1), m_axis = axis, m_cp = cp,
       m_p_lim = (0, 0), m_dstarmax = 1 / 2, m_dstarmax2 = 1 / 4,
       m_wavelength = 1, m_wavelength_sq = 1, m_margin = margin,
       m_ewald_p_lim_beg = (0, 0), m_ewald_p_lim_end = (0, 0),
       m_res_p_lim_beg = (0, 0), m_res_p_lim_end = (0, 0) \<rparr>
     [0, 0, 1, 0, 1, 0, 1, 0, 0] [0, 0, 1, 0, 1, 0, 1, 0, 0] =
   Inr \<lparr> m_permutation = perm, m_source = (0, 0, - 1), m_axis = axis, m_cp = cp,
       m_p_lim = (- margin, margin + 1), m_dstarmax = 1 / 2, m_dstarmax2 = 1 / 4,
       m_wavelength = 1, m_wavelength_sq = 1, m_margin = margin,
       m_ewald_p_lim_beg = (- 2, 0), m_ewald_p_lim_end = (- 2, 0),
       m_res_p_lim_beg = (- (1 / 8), - (1 / 8)),
       m_res_p_lim_end = (- (1 / 8), - (1 / 8)) \<rparr>"
  unfolding compute_p_limits_def oriented_normal_unit
  by (simp add: get_row_def compute_ewald_sphere_p_limits_unit compute_resolution_p_limits_unit
        select_p_limits_def sign_of_def af_min_def af_max_def int_of_double_small)

lemma ReekeModel_unit:
  "ReekeModel [1, 0, 0, 0, 1, 0, 0, 0, 1] [1, 0, 0, 0, 1, 0, 0, 0, 1] (1, 0, 0) (0, 0, - 1) 2 margin
     = Inr (unit_model margin)"
  unfolding ReekeModel_def permute_matrix_unit
  by (simp add: compute_constant_with_p_unit compute_p_limits_unit vlength_def unit_model_def)

lemma r_limits_unit_0_0: "r_limits (unit_model 1) 0 0 = [(- 1, 2), (2, 2)]"
  by (simp add: limits_defs unit_model_def int_of_double_small)

subsection \<open>The intervals of r\<close>

lemma int_of_double_mono: "x \<le> y \<Longrightarrow> int_of_double x \<le> int_of_double y"
proof -
  assume xy: "x \<le> y"
  consider "0 \<le> x" | "x < 0" "0 \<le> y" | "x < 0" "y < 0" by linarith
  then show ?thesis
  proof cases
    case 1
    then show ?thesis using xy by (simp add: int_of_double_def floor_mono)
  next
    case 2
    have "\<lceil>x\<rceil> \<le> 0" using 2(1) by (simp add: ceiling_le_iff)
    moreover have "0 \<le> \<lfloor>y\<rfloor>" using 2(2) by simp
    ultimately have "\<lceil>x\<rceil> \<le> \<lfloor>y\<rfloor>" by linarith
    then show ?thesis using 2 by (simp add: int_of_double_def)
  next
    case 3
    then show ?thesis using xy by (simp add: int_of_double_def ceiling_mono)
  qed
qed

lemma widen_mono:
  "lo \<le> lo' \<Longrightarrow> hi \<le> hi' \<Longrightarrow>
   fst (widen m lo hi) \<le> fst (widen m lo' hi') \<and> snd (widen m lo hi) \<le> snd (widen m lo' hi')"
  by (simp add: widen_def int_of_double_mono)

lemma foldl_min_le: "foldl min (a::real) xs \<le> a"
proof (induction xs arbitrary: a)
  case Nil
  show ?case by simp
next
  case (Cons x xs)
  have "foldl min (min a x) xs \<le> min a x" by (rule Cons.IH)
  then show ?case by simp
qed

lemma foldl_max_ge: "(a::real) \<le> foldl max a xs"
proof (induction xs arbitrary: a)
  case Nil
  show ?case by simp
next
  case (Cons x xs)
  have "max a x \<le> foldl max (max a x) xs" by (rule Cons.IH)
  then show ?case by simp
qed

lemma af_min_le_af_max: "af_min xs \<le> af_max xs"
  unfolding af_min_def af_max_def
  using foldl_min_le[of "hd xs" "tl xs"] foldl_max_ge[of "hd xs" "tl xs"] by linarith

text \<open>At most two intervals, and two of them ascend at both ends.\<close>

definition ascending :: "vec2i list \<Rightarrow> bool" where
  "ascending xs = (case xs of
      [a, b] \<Rightarrow> fst a \<le> fst b \<and> snd a \<le> snd b
    | _ \<Rightarrow> length xs \<le> 1)"

lemma ewald_sphere_r_limits_ascending: "ascending (ewald_sphere_r_limits m p q cq)"
proof -
  have *: "ascending [widen m (min a c) (max a c), widen m (min b d) (max b d)]"
    if "a \<le> b" "c \<le> d" for a b c d :: real
  proof -
    have "min a c \<le> min b d" "max a c \<le> max b d" using that by auto
    then show ?thesis
      using widen_mono[of "min a c" "min b d" "max a c" "max b d" m]
      by (simp add: ascending_def)
  qed
  show ?thesis
    unfolding ewald_sphere_r_limits_def Let_def
    using * [OF af_min_le_af_max af_min_le_af_max]
    by (auto simp: ascending_def)
qed

lemma restrict_ascending:
  "ascending es \<Longrightarrow>
   (case concat (map (restrict_to res) es) of
      [] \<Rightarrow> True
    | [a] \<Rightarrow> fst a < snd a
    | [a, b] \<Rightarrow> fst a < snd a \<and> fst b < snd b \<and> fst a \<le> fst b \<and> snd a \<le> snd b
    | _ \<Rightarrow> False)"
  by (cases res) (auto simp: ascending_def Let_def split: list.splits if_splits)

lemma order_ranges_shape:
  "(case rs of
      [] \<Rightarrow> True
    | [a] \<Rightarrow> fst a < snd a
    | [a, b] \<Rightarrow> fst a < snd a \<and> fst b < snd b \<and> fst a \<le> fst b \<and> snd a \<le> snd b
    | _ \<Rightarrow> False) \<Longrightarrow>
   length (order_ranges rs) \<le> 2 \<and>
   (order_ranges rs \<noteq> [] \<longrightarrow> fst (order_ranges rs ! 0) < snd (order_ranges rs ! 0)) \<and>
   (length (order_ranges rs) = 2 \<longrightarrow>
      fst (order_ranges rs ! 0) \<le> fst (order_ranges rs ! 1) \<and>
      snd (order_ranges rs ! 0) \<le> fst (order_ranges rs ! 1) \<and>
      fst (order_ranges rs ! 1) \<le> snd (order_ranges rs ! 1))"
  by (auto simp: order_ranges_def swap_def Let_def split: list.splits)

text \<open>
  Claim C5, as amended. For every \<open>(p, q)\<close>, \<^verbatim>\<open>r_limits(p, q)\<close> returns at most two
  intervals. The first (or only) interval has lower < upper. When two intervals are
  returned they are ascending and disjoint (the upper bound of the first is at most the
  lower bound of the second), and the second has lower \<le> upper: cutting it at the end of
  the first can leave it empty.
\<close>

theorem r_limits_intervals:
  "length (r_limits m p q) \<le> 2 \<and>
   (r_limits m p q \<noteq> [] \<longrightarrow> fst (r_limits m p q ! 0) < snd (r_limits m p q ! 0)) \<and>
   (length (r_limits m p q) = 2 \<longrightarrow>
      fst (r_limits m p q ! 0) \<le> fst (r_limits m p q ! 1) \<and>
      snd (r_limits m p q ! 0) \<le> fst (r_limits m p q ! 1) \<and>
      fst (r_limits m p q ! 1) \<le> snd (r_limits m p q ! 1))"
proof (cases "resolution_r_limits m p q (compute_cq m p)")
  case None
  then show ?thesis by (simp add: r_limits_def)
next
  case (Some res)
  have "r_limits m p q =
        order_ranges (concat (map (restrict_to res) (ewald_sphere_r_limits m p q (compute_cq m p))))"
    using Some by (simp add: r_limits_def)
  then show ?thesis
    using order_ranges_shape[OF restrict_ascending[OF ewald_sphere_r_limits_ascending]]
    by simp
qed

theorem r_limits_intervals_witness:
  "length (r_limits (unit_model 1) 0 0) = 2 \<and>
   fst (r_limits (unit_model 1) 0 0 ! 0) < snd (r_limits (unit_model 1) 0 0 ! 0) \<and>
   fst (r_limits (unit_model 1) 0 0 ! 0) \<le> fst (r_limits (unit_model 1) 0 0 ! 1) \<and>
   snd (r_limits (unit_model 1) 0 0 ! 0) \<le> fst (r_limits (unit_model 1) 0 0 ! 1) \<and>
   fst (r_limits (unit_model 1) 0 0 ! 1) \<le> snd (r_limits (unit_model 1) 0 0 ! 1)"
  using r_limits_intervals[of "unit_model 1" 0 0] by (simp add: r_limits_unit_0_0)

text \<open>
  The claim as stated fails in the first boundary scenario with margin 1: at
  \<open>(p, q) = (0, 0)\<close> the second interval returned is \<open>(2, 2)\<close>.
\<close>

theorem r_limits_lower_less_upper_counterexample:
  "ReekeModel [1, 0, 0, 0, 1, 0, 0, 0, 1] [1, 0, 0, 0, 1, 0, 0, 0, 1] (1, 0, 0) (0, 0, - 1) 2 1
     = Inr (unit_model 1) \<and>
   r_limits (unit_model 1) 0 0 = [(- 1, 2), (2, 2)] \<and>
   \<not> fst (r_limits (unit_model 1) 0 0 ! 1) < snd (r_limits (unit_model 1) 0 0 ! 1)"
  by (simp add: ReekeModel_unit r_limits_unit_0_0)

subsection \<open>The permutation matrix\<close>

lemma max_index3_less: "max_index [a, b, c] < 3"
  by (simp add: max_index3)

lemma max_index2_less: "max_index [a, b] < 2"
  by (simp add: max_index2)

lemma permutation_of_swaps:
  assumes "pix < 3" "rix < 2"
  shows "mat_mul_index
           ([0, 0, 0, 0, 0, 0, 0, 0, 0::int]
              [3 * (swap (swap [0, 1, 2::nat] 0 pix) 2 (rix + 1) ! 0) + 0 := 1,
               3 * (swap (swap [0, 1, 2::nat] 0 pix) 2 (rix + 1) ! 1) + 1 := 1,
               3 * (swap (swap [0, 1, 2::nat] 0 pix) 2 (rix + 1) ! 2) + 2 := 1]) v = (0, 0, 0)
         \<longleftrightarrow> v = (0, 0, 0)"
proof -
  obtain p q r where v: "v = (p, q, r)" by (cases v)
  have pix: "pix = 0 \<or> pix = 1 \<or> pix = 2" using assms(1) by arith
  have rix: "rix = 0 \<or> rix = 1" using assms(2) by arith
  show ?thesis
    using pix rix unfolding v by (elim disjE) (auto simp: swap_def)
qed

lemma permutation_zero_iff:
  "mat_mul_index (pa_permutation (permute_axes ub axis source)) v = (0, 0, 0) \<longleftrightarrow> v = (0, 0, 0)"
  unfolding permute_axes_def Let_def permute_axes.select_convs
  by (rule permutation_of_swaps[OF max_index3_less max_index2_less])

lemma compute_ewald_sphere_p_limits_keeps:
  "m_permutation (compute_ewald_sphere_p_limits m v_beg v_end dp_beg dp_end p_dist) = m_permutation m \<and>
   m_cp (compute_ewald_sphere_p_limits m v_beg v_end dp_beg dp_end p_dist) = m_cp m \<and>
   m_margin (compute_ewald_sphere_p_limits m v_beg v_end dp_beg dp_end p_dist) = m_margin m \<and>
   m_dstarmax2 (compute_ewald_sphere_p_limits m v_beg v_end dp_beg dp_end p_dist) = m_dstarmax2 m \<and>
   m_source (compute_ewald_sphere_p_limits m v_beg v_end dp_beg dp_end p_dist) = m_source m"
  by (simp add: compute_ewald_sphere_p_limits_def Let_def)

lemma compute_resolution_p_limits_keeps:
  "compute_resolution_p_limits m v_beg v_end dp_beg dp_end p_dist = Inr m' \<Longrightarrow>
   m_permutation m' = m_permutation m \<and> m_cp m' = m_cp m \<and> m_margin m' = m_margin m \<and>
   m_dstarmax2 m' = m_dstarmax2 m \<and> m_source m' = m_source m"
  by (auto simp: compute_resolution_p_limits_def Let_def split: if_splits)

lemma compute_p_limits_Inr:
  assumes "compute_p_limits m rlv_beg rlv_end = Inr m'"
  shows "\<exists>m2. compute_resolution_p_limits
           (compute_ewald_sphere_p_limits m (oriented_normal rlv_beg) (oriented_normal rlv_end)
              \<bar>dot (oriented_normal rlv_beg) (m_source m)\<bar>
              \<bar>dot (oriented_normal rlv_end) (m_source m)\<bar>
              \<bar>dot (get_row rlv_beg 0) (oriented_normal rlv_beg)\<bar>)
           (oriented_normal rlv_beg) (oriented_normal rlv_end)
           \<bar>dot (oriented_normal rlv_beg) (m_source m)\<bar>
           \<bar>dot (oriented_normal rlv_end) (m_source m)\<bar>
           \<bar>dot (get_row rlv_beg 0) (oriented_normal rlv_beg)\<bar> = Inr m2 \<and>
         m' = m2\<lparr> m_p_lim :=
                (int_of_double (af_min (select_p_limits m2
                    (sign_of (dot (oriented_normal rlv_end) (m_source m2))))) - m_margin m2,
                 int_of_double (af_max (select_p_limits m2
                    (sign_of (dot (oriented_normal rlv_end) (m_source m2))))) + m_margin m2 + 1) \<rparr>"
  using assms unfolding compute_p_limits_def Let_def by (auto split: sum.splits)

lemma compute_p_limits_keeps:
  assumes "compute_p_limits m rlv_beg rlv_end = Inr m'"
  shows "m_permutation m' = m_permutation m \<and> m_cp m' = m_cp m \<and> m_margin m' = m_margin m \<and>
   m_dstarmax2 m' = m_dstarmax2 m \<and> m_source m' = m_source m"
proof -
  from compute_p_limits_Inr[OF assms] obtain m2 lim where
    m2: "compute_resolution_p_limits
           (compute_ewald_sphere_p_limits m (oriented_normal rlv_beg) (oriented_normal rlv_end)
              \<bar>dot (oriented_normal rlv_beg) (m_source m)\<bar>
              \<bar>dot (oriented_normal rlv_end) (m_source m)\<bar>
              \<bar>dot (get_row rlv_beg 0) (oriented_normal rlv_beg)\<bar>)
           (oriented_normal rlv_beg) (oriented_normal rlv_end)
           \<bar>dot (oriented_normal rlv_beg) (m_source m)\<bar>
           \<bar>dot (oriented_normal rlv_end) (m_source m)\<bar>
           \<bar>dot (get_row rlv_beg 0) (oriented_normal rlv_beg)\<bar> = Inr m2"
    and m': "m' = m2\<lparr> m_p_lim := lim \<rparr>"
    by blast
  show ?thesis
    using compute_resolution_p_limits_keeps[OF m2]
    by (simp add: m' compute_ewald_sphere_p_limits_keeps)
qed

lemma ReekeModel_permutation:
  "ReekeModel ub_beg ub_end axis source dmin margin = Inr m \<Longrightarrow>
   m_permutation m = pa_permutation (permute_axes ub_beg axis source)"
  unfolding ReekeModel_def Let_def
  by (drule compute_p_limits_keeps) (simp add: permute_matrix_def Let_def)

lemma generator_permutation:
  "ReekeIndexGenerator ub_beg ub_end axis s0 dmin margin = Inr g \<Longrightarrow>
   m_permutation (g_model g) = pa_permutation (permute_axes ub_beg axis (neg s0))"
  by (auto simp: ReekeIndexGenerator_def ReekeModel_permutation split: sum.splits)

subsection \<open>What the loops return\<close>

lemma r_loop_nonzero: "fst (r_loop s) \<noteq> Some (0, 0, 0)"
proof (induction s rule: r_loop.induct)
  case (1 s)
  let ?result = "(fst (st_p s), fst (st_q s), r_lower s)"
  show ?case
  proof (cases "st_ridx s < length (st_r s) \<and> r_lower s < r_upper s")
    case False
    then show ?thesis by (subst r_loop.simps) auto
  next
    case True
    show ?thesis
    proof (cases "is_zero ?result")
      case True2: True
      have "r_loop s = r_loop (incr_r s)"
        using True True2 by (subst r_loop.simps) (simp add: Let_def)
      then show ?thesis using "1.IH"[OF True refl] True2 by simp
    next
      case False
      have "r_loop s = (Some ?result, s)"
        using True False by (subst r_loop.simps) (simp add: Let_def)
      then show ?thesis using False by (simp add: is_zero_def)
    qed
  qed
qed

lemma ridx_loop_nonzero: "fst (ridx_loop s) \<noteq> Some (0, 0, 0)"
proof (induction s rule: ridx_loop.induct)
  case (1 s)
  show ?case
  proof (cases "st_ridx s < length (st_r s)")
    case False
    then show ?thesis by (subst ridx_loop.simps) simp
  next
    case True
    obtain x y where xy: "r_loop s = (x, y)" by (cases "r_loop s")
    show ?thesis
    proof (cases x)
      case None
      then show ?thesis
        using True xy "1.IH"[OF True xy[symmetric] None]
        by (subst ridx_loop.simps) simp
    next
      case (Some h)
      then show ?thesis
        using True xy r_loop_nonzero[of s] by (subst ridx_loop.simps) simp
    qed
  qed
qed

lemma q_loop_nonzero: "fst (q_loop m s) \<noteq> Some (0, 0, 0)"
proof (induction m s rule: q_loop.induct)
  case (1 m s)
  let ?s0 = "s\<lparr> st_r := r_limits m (of_int (fst (st_p s))) (of_int (fst (st_q s))), st_ridx := 0 \<rparr>"
  show ?case
  proof (cases "fst (st_q s) < snd (st_q s)")
    case False
    then show ?thesis by (subst q_loop.simps) simp
  next
    case True
    obtain x y where xy: "ridx_loop ?s0 = (x, y)" by (cases "ridx_loop ?s0")
    show ?thesis
    proof (cases x)
      case None
      then show ?thesis
        using True xy "1.IH"[OF True xy[symmetric] None]
        by (subst q_loop.simps) simp
    next
      case (Some h)
      then show ?thesis
        using True xy ridx_loop_nonzero[of ?s0] by (subst q_loop.simps) simp
    qed
  qed
qed

lemma p_loop_nonzero: "fst (p_loop m s) \<noteq> Some (0, 0, 0)"
proof (induction m s rule: p_loop.induct)
  case (1 m s)
  let ?s0 = "s\<lparr> st_q := q_limits m (fst (st_p s)) \<rparr>"
  show ?case
  proof (cases "fst (st_p s) < snd (st_p s)")
    case False
    then show ?thesis by (subst p_loop.simps) simp
  next
    case True
    obtain x y where xy: "q_loop m ?s0 = (x, y)" by (cases "q_loop m ?s0")
    show ?thesis
    proof (cases x)
      case None
      then show ?thesis
        using True xy "1.IH"[OF True xy[symmetric] None]
        by (subst p_loop.simps) simp
    next
      case (Some h)
      then show ?thesis
        using True xy q_loop_nonzero[of m ?s0] by (subst p_loop.simps) simp
    qed
  qed
qed

lemma resume_nonzero: "fst (resume m s) \<noteq> Some (0, 0, 0)"
proof -
  obtain x1 s1 where a: "r_loop (incr_r s) = (x1, s1)" by (cases "r_loop (incr_r s)")
  obtain x2 s2 where b: "ridx_loop (incr_ridx s1) = (x2, s2)" by (cases "ridx_loop (incr_ridx s1)")
  obtain x3 s3 where c: "q_loop m (incr_q s2) = (x3, s3)" by (cases "q_loop m (incr_q s2)")
  show ?thesis
    using a b c r_loop_nonzero[of "incr_r s"] ridx_loop_nonzero[of "incr_ridx s1"]
      q_loop_nonzero[of m "incr_q s2"] p_loop_nonzero[of m "incr_p s3"]
    by (auto simp: resume_def split: option.splits)
qed

lemma run_switch_nonzero: "fst (run_switch m s) \<noteq> Some (0, 0, 0)"
  by (simp add: run_switch_def resume_nonzero p_loop_nonzero)

lemma next_pqr_zero_iff:
  "fst (next_pqr m s) = (0, 0, 0) \<longleftrightarrow> fst (run_switch m s) = None"
  using run_switch_nonzero[of m s]
  by (cases "run_switch m s") (auto simp: next_pqr_def split: option.splits)

lemma next_index_zero_iff:
  assumes "ReekeIndexGenerator ub_beg ub_end axis s0 dmin margin = Inr g"
  shows "fst (next_index g s) = (0, 0, 0) \<longleftrightarrow> fst (run_switch (g_model g) s) = None"
  using permutation_zero_iff[of ub_beg axis "neg s0" "fst (next_pqr (g_model g) s)"]
  by (simp add: next_index_def generator_permutation[OF assms] next_pqr_zero_iff)



lemma q_limits_unit_1: "q_limits (unit_model 1) (- 1) = (0, 0)" "q_limits (unit_model 1) 0 = (- 1, 2)"
  "q_limits (unit_model 1) 1 = (0, 0)"
  by (simp_all add: limits_defs unit_model_def int_of_double_small)

lemma r_limits_unit_1: "r_limits (unit_model 1) 0 (- 1) = []" "r_limits (unit_model 1) 0 1 = []"
  by (simp_all add: limits_defs unit_model_def int_of_double_small)

lemma limits_unit_0: "q_limits (unit_model 0) 0 = (0, 1)" "r_limits (unit_model 0) 0 0 = []"
  by (simp_all add: limits_defs unit_model_def int_of_double_small)

text \<open>The loops, one iteration at a time.\<close>

lemma r_loop_exit:
  "\<not> (st_ridx s < length (st_r s) \<and> r_lower s < r_upper s) \<Longrightarrow> r_loop s = (None, s)"
  by (subst r_loop.simps) auto

lemma r_loop_yield:
  "st_ridx s < length (st_r s) \<Longrightarrow> r_lower s < r_upper s \<Longrightarrow>
   \<not> is_zero (fst (st_p s), fst (st_q s), r_lower s) \<Longrightarrow>
   r_loop s = (Some (fst (st_p s), fst (st_q s), r_lower s), s)"
  by (subst r_loop.simps) (simp add: Let_def)

lemma r_loop_skip:
  "st_ridx s < length (st_r s) \<Longrightarrow> r_lower s < r_upper s \<Longrightarrow>
   is_zero (fst (st_p s), fst (st_q s), r_lower s) \<Longrightarrow>
   r_loop s = r_loop (incr_r s)"
  by (subst r_loop.simps) (simp add: Let_def)

lemma ridx_loop_exit: "\<not> st_ridx s < length (st_r s) \<Longrightarrow> ridx_loop s = (None, s)"
  by (subst ridx_loop.simps) simp

lemma ridx_loop_step:
  "st_ridx s < length (st_r s) \<Longrightarrow>
   ridx_loop s = (case r_loop s of
                    (Some h, s') \<Rightarrow> (Some h, s')
                  | (None, s') \<Rightarrow> ridx_loop (incr_ridx s'))"
  by (subst ridx_loop.simps) simp

lemma q_loop_exit: "\<not> fst (st_q s) < snd (st_q s) \<Longrightarrow> q_loop m s = (None, s)"
  by (subst q_loop.simps) simp

lemma q_loop_step:
  "fst (st_q s) < snd (st_q s) \<Longrightarrow>
   q_loop m s =
     (case ridx_loop (s\<lparr> st_r := r_limits m (of_int (fst (st_p s))) (of_int (fst (st_q s))),
                          st_ridx := 0 \<rparr>) of
        (Some h, s') \<Rightarrow> (Some h, s')
      | (None, s') \<Rightarrow> q_loop m (incr_q s'))"
  by (subst q_loop.simps) simp

lemma p_loop_exit: "\<not> fst (st_p s) < snd (st_p s) \<Longrightarrow> p_loop m s = (None, s)"
  by (subst p_loop.simps) simp

lemma p_loop_step:
  "fst (st_p s) < snd (st_p s) \<Longrightarrow>
   p_loop m s =
     (case q_loop m (s\<lparr> st_q := q_limits m (fst (st_p s)) \<rparr>) of
        (Some h, s') \<Rightarrow> (Some h, s')
      | (None, s') \<Rightarrow> p_loop m (incr_p s'))"
  by (subst p_loop.simps) simp

lemmas loop_steps =
  r_loop_exit r_loop_yield r_loop_skip ridx_loop_exit ridx_loop_step
  q_loop_exit q_loop_step p_loop_exit p_loop_step
  resume_def run_switch_def next_pqr_def next_index_def
  incr_r_def incr_ridx_def incr_q_def incr_p_def
  r_lower_def r_upper_def is_zero_def enter_def yield_def p_limits_def

lemma unit_model_sel:
  "m_p_lim (unit_model margin) = (- margin, margin + 1)"
  "m_permutation (unit_model margin) = [0, 0, 1, 0, 1, 0, 1, 0, 0]"
  by (simp_all add: unit_model_def)


subsection \<open>The cursor after a call\<close>

text \<open>
  Two states of the statics are the same cursor when they are equal or both at
  \<^verbatim>\<open>enter\<close>: a call at \<^verbatim>\<open>enter\<close> assigns every static before it reads it.
\<close>

definition same_cursor :: "statics \<Rightarrow> statics \<Rightarrow> bool" where
  "same_cursor s s' = (s = s' \<or> (st_state s = enter \<and> st_state s' = enter))"

lemma q_loop_cursor:
  assumes "st_p u = st_p u'" "st_q u = st_q u'" "st_state u = st_state u'"
  shows "fst (q_loop m u) = fst (q_loop m u') \<and>
         (fst (q_loop m u) \<noteq> None \<longrightarrow> snd (q_loop m u) = snd (q_loop m u'))"
proof (cases "fst (st_q u) < snd (st_q u)")
  case False
  then show ?thesis using assms by (simp add: q_loop_exit)
next
  case True
  then have True': "fst (st_q u') < snd (st_q u')" using assms by simp
  let ?U = "u\<lparr> st_r := r_limits m (of_int (fst (st_p u))) (of_int (fst (st_q u))), st_ridx := 0 \<rparr>"
  let ?U' = "u'\<lparr> st_r := r_limits m (of_int (fst (st_p u'))) (of_int (fst (st_q u'))), st_ridx := 0 \<rparr>"
  have eq: "?U = ?U'"
    using assms by (intro statics.equality) simp_all
  have "q_loop m u = q_loop m u'"
    unfolding q_loop_step[OF True] q_loop_step[OF True'] eq ..
  then show ?thesis by simp
qed

lemma p_loop_cursor:
  "st_p t = st_p t' \<Longrightarrow> st_state t = st_state t' \<Longrightarrow>
   fst (p_loop m t) = fst (p_loop m t') \<and>
   (fst (p_loop m t) \<noteq> None \<longrightarrow> snd (p_loop m t) = snd (p_loop m t'))"
proof (induction m t arbitrary: t' rule: p_loop.induct)
  case (1 m t)
  let ?u = "t\<lparr> st_q := q_limits m (fst (st_p t)) \<rparr>"
  let ?u' = "t'\<lparr> st_q := q_limits m (fst (st_p t')) \<rparr>"
  show ?case
  proof (cases "fst (st_p t) < snd (st_p t)")
    case False
    then show ?thesis using "1.prems" by (simp add: p_loop_exit)
  next
    case True
    then have True': "fst (st_p t') < snd (st_p t')" using "1.prems" by simp
    obtain x y where xy: "q_loop m ?u = (x, y)" by (cases "q_loop m ?u")
    obtain x' y' where xy': "q_loop m ?u' = (x', y')" by (cases "q_loop m ?u'")
    have q: "x = x'" "x \<noteq> None \<longrightarrow> y = y'"
      using q_loop_cursor[of ?u ?u' m] "1.prems" xy xy' by simp_all
    show ?thesis
    proof (cases x)
      case (Some h)
      then show ?thesis
        using True True' xy xy' q by (simp add: p_loop_step)
    next
      case None
      have keep: "st_p y = st_p t" "st_state y = st_state t"
                 "st_p y' = st_p t'" "st_state y' = st_state t'"
        using q_loop_keeps[of m ?u] q_loop_keeps[of m ?u'] xy xy' by simp_all
      have "fst (p_loop m (incr_p y)) = fst (p_loop m (incr_p y')) \<and>
            (fst (p_loop m (incr_p y)) \<noteq> None \<longrightarrow>
             snd (p_loop m (incr_p y)) = snd (p_loop m (incr_p y')))"
        using "1.IH"[OF True xy[symmetric] None, of "incr_p y'"] keep "1.prems"
        by (simp add: incr_p_def)
      then show ?thesis
        using True True' xy xy' q None by (simp add: p_loop_step)
    qed
  qed
qed

lemma next_pqr_state:
  "fst (run_switch m s) = None \<Longrightarrow> st_state (snd (next_pqr m s)) = enter"
  by (cases "run_switch m s") (simp add: next_pqr_def)

lemma next_pqr_cursor:
  assumes "same_cursor s s'"
  shows "fst (next_pqr m s) = fst (next_pqr m s') \<and>
         same_cursor (snd (next_pqr m s)) (snd (next_pqr m s'))"
proof (cases "s = s'")
  case True
  then show ?thesis by (simp add: same_cursor_def)
next
  case False
  then have e: "st_state s = enter" "st_state s' = enter"
    using assms by (simp_all add: same_cursor_def)
  let ?t = "s\<lparr> st_state := yield, st_p := p_limits m \<rparr>"
  let ?t' = "s'\<lparr> st_state := yield, st_p := p_limits m \<rparr>"
  have r: "run_switch m s = p_loop m ?t" "run_switch m s' = p_loop m ?t'"
    using e by (simp_all add: run_switch_def)
  obtain x y where xy: "p_loop m ?t = (x, y)" by (cases "p_loop m ?t")
  obtain x' y' where xy': "p_loop m ?t' = (x', y')" by (cases "p_loop m ?t'")
  have p: "x = x'" "x \<noteq> None \<longrightarrow> y = y'"
    using p_loop_cursor[of ?t ?t' m] xy xy' by simp_all
  show ?thesis
  proof (cases x)
    case None
    then have "x' = None" using p by simp
    then show ?thesis
      using None by (simp add: r xy xy' next_pqr_def same_cursor_def)
  next
    case (Some h)
    then have "x' = Some h" "y = y'" using p by simp_all
    then show ?thesis
      using Some by (simp add: r xy xy' next_pqr_def same_cursor_def)
  qed
qed

lemma calls_cursor: "same_cursor s s' \<Longrightarrow> calls g n s = calls g n s'"
proof (induction n arbitrary: s s')
  case 0
  show ?case by simp
next
  case (Suc n)
  have "fst (next_index g s) = fst (next_index g s')"
    "same_cursor (snd (next_index g s)) (snd (next_index g s'))"
    using next_pqr_cursor[OF Suc.prems, of "g_model g"] by (simp_all add: next_index_def)
  then show ?case using Suc.IH by simp
qed

text \<open>
  A call with \<^verbatim>\<open>state == yield\<close> reads \<^verbatim>\<open>r[ridx]\<close>. Every call leaves the statics
  so that this read is in range, and so do the initial statics.
\<close>

definition cursor_ok :: "statics \<Rightarrow> bool" where
  "cursor_ok s = (st_state s = enter \<or> (st_state s = yield \<and> st_ridx s < length (st_r s)))"


lemma r_loop_in_range:
  "fst (r_loop s) \<noteq> None \<Longrightarrow> st_ridx (snd (r_loop s)) < length (st_r (snd (r_loop s)))"
proof (induction s rule: r_loop.induct)
  case (1 s)
  show ?case
  proof (cases "st_ridx s < length (st_r s) \<and> r_lower s < r_upper s")
    case False
    then show ?thesis using "1.prems" by (simp add: r_loop_exit)
  next
    case True
    show ?thesis
    proof (cases "is_zero (fst (st_p s), fst (st_q s), r_lower s)")
      case False
      then show ?thesis using True by (simp add: r_loop_yield)
    next
      case zero: True
      then show ?thesis
        using True "1.IH"[OF True refl] "1.prems" by (simp add: r_loop_skip)
    qed
  qed
qed

lemma ridx_loop_in_range:
  "fst (ridx_loop s) \<noteq> None \<Longrightarrow>
   st_ridx (snd (ridx_loop s)) < length (st_r (snd (ridx_loop s)))"
proof (induction s rule: ridx_loop.induct)
  case (1 s)
  show ?case
  proof (cases "st_ridx s < length (st_r s)")
    case False
    then show ?thesis using "1.prems" by (simp add: ridx_loop_exit)
  next
    case True
    obtain x y where xy: "r_loop s = (x, y)" by (cases "r_loop s")
    show ?thesis
    proof (cases x)
      case None
      then show ?thesis
        using True xy "1.IH"[OF True xy[symmetric] None] "1.prems"
        by (simp add: ridx_loop_step)
    next
      case (Some h)
      then show ?thesis
        using True xy r_loop_in_range[of s] by (simp add: ridx_loop_step)
    qed
  qed
qed

lemma q_loop_in_range:
  "fst (q_loop m s) \<noteq> None \<Longrightarrow>
   st_ridx (snd (q_loop m s)) < length (st_r (snd (q_loop m s)))"
proof (induction m s rule: q_loop.induct)
  case (1 m s)
  let ?s0 = "s\<lparr> st_r := r_limits m (of_int (fst (st_p s))) (of_int (fst (st_q s))), st_ridx := 0 \<rparr>"
  show ?case
  proof (cases "fst (st_q s) < snd (st_q s)")
    case False
    then show ?thesis using "1.prems" by (simp add: q_loop_exit)
  next
    case True
    obtain x y where xy: "ridx_loop ?s0 = (x, y)" by (cases "ridx_loop ?s0")
    show ?thesis
    proof (cases x)
      case None
      then show ?thesis
        using True xy "1.IH"[OF True xy[symmetric] None] "1.prems"
        by (simp add: q_loop_step)
    next
      case (Some h)
      then show ?thesis
        using True xy ridx_loop_in_range[of ?s0] by (simp add: q_loop_step)
    qed
  qed
qed

lemma p_loop_in_range:
  "fst (p_loop m s) \<noteq> None \<Longrightarrow>
   st_ridx (snd (p_loop m s)) < length (st_r (snd (p_loop m s))) \<and>
   st_state (snd (p_loop m s)) = st_state s"
proof (induction m s rule: p_loop.induct)
  case (1 m s)
  let ?s0 = "s\<lparr> st_q := q_limits m (fst (st_p s)) \<rparr>"
  show ?case
  proof (cases "fst (st_p s) < snd (st_p s)")
    case False
    then show ?thesis using "1.prems" by (simp add: p_loop_exit)
  next
    case True
    obtain x y where xy: "q_loop m ?s0 = (x, y)" by (cases "q_loop m ?s0")
    have y: "st_state y = st_state s" using q_loop_keeps[of m ?s0] xy by simp
    show ?thesis
    proof (cases x)
      case None
      then show ?thesis
        using True xy y "1.IH"[OF True xy[symmetric] None] "1.prems"
        by (simp add: p_loop_step incr_p_def)
    next
      case (Some h)
      then show ?thesis
        using True xy y q_loop_in_range[of m ?s0] by (simp add: p_loop_step)
    qed
  qed
qed

lemma resume_in_range:
  assumes "fst (resume m s) \<noteq> None"
  shows "st_ridx (snd (resume m s)) < length (st_r (snd (resume m s))) \<and>
         st_state (snd (resume m s)) = st_state s"
proof -
  obtain x1 s1 where a: "r_loop (incr_r s) = (x1, s1)" by (cases "r_loop (incr_r s)")
  obtain x2 s2 where b: "ridx_loop (incr_ridx s1) = (x2, s2)" by (cases "ridx_loop (incr_ridx s1)")
  obtain x3 s3 where c: "q_loop m (incr_q s2) = (x3, s3)" by (cases "q_loop m (incr_q s2)")
  have k: "st_state s1 = st_state s" "st_state s2 = st_state s" "st_state s3 = st_state s"
    using a b c r_loop_keeps[of "incr_r s"] ridx_loop_keeps[of "incr_ridx s1"]
      q_loop_keeps[of m "incr_q s2"]
    by (simp_all add: incr_r_def incr_ridx_def incr_q_def)
  show ?thesis
    using assms a b c k r_loop_in_range[of "incr_r s"] ridx_loop_in_range[of "incr_ridx s1"]
      q_loop_in_range[of m "incr_q s2"] p_loop_in_range[of m "incr_p s3"]
    by (auto simp: resume_def incr_p_def split: option.splits)
qed

lemma cursor_ok_initial: "cursor_ok initial_statics"
  by (simp add: cursor_ok_def initial_statics_def)

lemma cursor_ok_next: "cursor_ok (snd (next_index g s))"
proof (cases "fst (run_switch (g_model g) s)")
  case None
  then show ?thesis
    using next_pqr_state[of "g_model g" s] by (simp add: cursor_ok_def next_index_def)
next
  case (Some h)
  obtain y where y: "run_switch (g_model g) s = (Some h, y)"
    using Some by (cases "run_switch (g_model g) s") simp
  have "st_state y = yield \<and> st_ridx y < length (st_r y)"
  proof (cases "st_state s = enter")
    case True
    then show ?thesis
      using y p_loop_in_range[of "g_model g" "s\<lparr> st_state := yield, st_p := p_limits (g_model g) \<rparr>"]
      by (simp add: run_switch_def)
  next
    case False
    then have "st_state s = yield" using y by (auto simp: run_switch_def split: if_splits)
    then show ?thesis
      using y False resume_in_range[of "g_model g" s] by (simp add: run_switch_def)
  qed
  then show ?thesis using y by (simp add: cursor_ok_def next_index_def next_pqr_def)
qed


subsection \<open>Progress of the cursor\<close>









subsection \<open>The generator in the first boundary scenario\<close>

lemma ReekeIndexGenerator_unit:
  "ReekeIndexGenerator [1, 0, 0, 0, 1, 0, 0, 0, 1] [1, 0, 0, 0, 1, 0, 0, 0, 1] (1, 0, 0) (0, 0, 1)
     2 margin = Inr \<lparr> g_model = unit_model margin \<rparr>"
  by (simp add: ReekeIndexGenerator_def ReekeModel_unit)

lemmas unit_steps =
  loop_steps initial_statics_def q_limits_unit_1 r_limits_unit_1 r_limits_unit_0_0
  limits_unit_0 unit_model_sel

lemma calls_unit_1:
  "calls \<lparr> g_model = unit_model 1 \<rparr> 4 initial_statics =
     [(- 1, 0, 0), (1, 0, 0), (0, 0, 0), (- 1, 0, 0)]"
  by (simp add: numeral_eq_Suc unit_steps)

lemma next_unit_0:
  "next_index \<lparr> g_model = unit_model 0 \<rparr> initial_statics =
     ((0, 0, 0), \<lparr> st_p = (1, 1), st_q = (1, 1), st_r = [], st_ridx = 0, st_state = enter \<rparr>)"
  by (simp add: unit_steps)

lemma next_unit_1:
  "next_index \<lparr> g_model = unit_model 1 \<rparr> initial_statics =
     ((- 1, 0, 0),
      \<lparr> st_p = (0, 2), st_q = (0, 2), st_r = [(- 1, 2), (2, 2)], st_ridx = 0, st_state = yield \<rparr>)"
  by (simp add: unit_steps)

lemma next_unit_0_after_1:
  "fst (next_index \<lparr> g_model = unit_model 0 \<rparr>
     \<lparr> st_p = (0, 2), st_q = (0, 2), st_r = [(- 1, 2), (2, 2)], st_ridx = 0, st_state = yield \<rparr>)
   = (1, 0, 0)"
  by (simp add: unit_steps)

text \<open>
  Claim C3. \<^verbatim>\<open>next()\<close> never returns the zero triple as a real reflection: the
  triple \<open>(p, q, r) = (0, 0, 0)\<close> is never returned at the yield point, the permutation
  matrix of a constructed generator sends only the zero triple to \<open>(0, 0, 0)\<close>, and so
  \<^verbatim>\<open>next()\<close> returns \<open>(0, 0, 0)\<close> exactly when the loops are exhausted (the sentinel).
\<close>

theorem next_zero_only_sentinel:
  assumes "ReekeIndexGenerator ub_beg ub_end axis s0 dmin margin = Inr g"
  shows "fst (run_switch (g_model g) s) \<noteq> Some (0, 0, 0) \<and>
         (\<forall>v. mat_mul_index (m_permutation (g_model g)) v = (0, 0, 0) \<longleftrightarrow> v = (0, 0, 0)) \<and>
         (fst (next_index g s) = (0, 0, 0) \<longleftrightarrow> fst (run_switch (g_model g) s) = None)"
  using run_switch_nonzero[of "g_model g" s] next_index_zero_iff[OF assms, of s]
    permutation_zero_iff[of ub_beg axis "neg s0"] generator_permutation[OF assms]
  by simp

theorem next_zero_only_sentinel_witness:
  "ReekeIndexGenerator [1, 0, 0, 0, 1, 0, 0, 0, 1] [1, 0, 0, 0, 1, 0, 0, 0, 1] (1, 0, 0) (0, 0, 1)
     2 1 = Inr \<lparr> g_model = unit_model 1 \<rparr> \<and>
   fst (next_index \<lparr> g_model = unit_model 1 \<rparr> initial_statics) = (- 1, 0, 0) \<and>
   fst (run_switch (unit_model 1) initial_statics) \<noteq> None \<and>
   fst (run_switch (unit_model 1) initial_statics) \<noteq> Some (0, 0, 0)"
  using next_zero_only_sentinel[OF ReekeIndexGenerator_unit, of 1 initial_statics]
  by (simp add: ReekeIndexGenerator_unit next_unit_1)

text \<open>
  The statics after two calls on the generator with margin 1, its third call, and the
  first two indices of its traversal.
\<close>

lemma next_unit_1_twice:
  "snd (next_index \<lparr> g_model = unit_model 1 \<rparr>
          (snd (next_index \<lparr> g_model = unit_model 1 \<rparr> initial_statics))) =
   \<lparr> st_p = (0, 2), st_q = (0, 2), st_r = [(1, 2), (2, 2)], st_ridx = 0, st_state = yield \<rparr>"
  by (simp add: unit_steps)

lemma next_unit_1_third:
  "fst (next_index \<lparr> g_model = unit_model 1 \<rparr>
     \<lparr> st_p = (0, 2), st_q = (0, 2), st_r = [(1, 2), (2, 2)], st_ridx = 0, st_state = yield \<rparr>)
   = (0, 0, 0)"
  by (simp add: unit_steps)

lemma calls_unit_1_two:
  "calls \<lparr> g_model = unit_model 1 \<rparr> 2 initial_statics = [(- 1, 0, 0), (1, 0, 0)]"
  by (simp add: numeral_eq_Suc unit_steps)

text \<open>
  Claim C1, as amended. Once \<^verbatim>\<open>next()\<close> has returned the sentinel \<open>(0, 0, 0)\<close>, the
  shared state is back at \<^verbatim>\<open>enter\<close>, and the calls that follow on that generator, with
  no call of \<^verbatim>\<open>next()\<close> on another generator in between, replay the traversal from its
  start: any number of such calls after the sentinel return what the same number of
  calls return on the initial statics.
\<close>

theorem calls_after_sentinel:
  assumes "ReekeIndexGenerator ub_beg ub_end axis s0 dmin margin = Inr g"
    and "fst (next_index g s) = (0, 0, 0)"
  shows "st_state (snd (next_index g s)) = enter \<and>
         calls g n (snd (next_index g s)) = calls g n initial_statics"
proof -
  have "fst (run_switch (g_model g) s) = None"
    using next_index_zero_iff[OF assms(1), of s] assms(2) by simp
  then have e: "st_state (snd (next_index g s)) = enter"
    using next_pqr_state[of "g_model g" s] by (simp add: next_index_def)
  then have "same_cursor (snd (next_index g s)) initial_statics"
    by (simp add: same_cursor_def initial_statics_def)
  then show ?thesis using e calls_cursor by simp
qed

text \<open>
  In the first boundary scenario with margin 1 the third call returns the sentinel, and
  the two calls after it return the two indices of the traversal again.
\<close>

theorem calls_after_sentinel_witness:
  "ReekeIndexGenerator [1, 0, 0, 0, 1, 0, 0, 0, 1] [1, 0, 0, 0, 1, 0, 0, 0, 1] (1, 0, 0) (0, 0, 1)
     2 1 = Inr \<lparr> g_model = unit_model 1 \<rparr> \<and>
   snd (next_index \<lparr> g_model = unit_model 1 \<rparr>
          (snd (next_index \<lparr> g_model = unit_model 1 \<rparr> initial_statics))) =
     \<lparr> st_p = (0, 2), st_q = (0, 2), st_r = [(1, 2), (2, 2)], st_ridx = 0, st_state = yield \<rparr> \<and>
   fst (next_index \<lparr> g_model = unit_model 1 \<rparr>
     \<lparr> st_p = (0, 2), st_q = (0, 2), st_r = [(1, 2), (2, 2)], st_ridx = 0, st_state = yield \<rparr>)
     = (0, 0, 0) \<and>
   st_state (snd (next_index \<lparr> g_model = unit_model 1 \<rparr>
     \<lparr> st_p = (0, 2), st_q = (0, 2), st_r = [(1, 2), (2, 2)], st_ridx = 0, st_state = yield \<rparr>))
     = enter \<and>
   calls \<lparr> g_model = unit_model 1 \<rparr> 2
     (snd (next_index \<lparr> g_model = unit_model 1 \<rparr>
        \<lparr> st_p = (0, 2), st_q = (0, 2), st_r = [(1, 2), (2, 2)], st_ridx = 0,
          st_state = yield \<rparr>)) =
     [(- 1, 0, 0), (1, 0, 0)]"
  using calls_after_sentinel[OF ReekeIndexGenerator_unit next_unit_1_third, of 2]
  by (simp add: ReekeIndexGenerator_unit next_unit_1_twice next_unit_1_third calls_unit_1_two)

text \<open>
  The claim as stated fails in the first boundary scenario with margin 1: the third
  call returns the sentinel and the fourth returns the first index again.
\<close>

theorem sentinel_forever_counterexample:
  "ReekeIndexGenerator [1, 0, 0, 0, 1, 0, 0, 0, 1] [1, 0, 0, 0, 1, 0, 0, 0, 1] (1, 0, 0) (0, 0, 1)
     2 1 = Inr \<lparr> g_model = unit_model 1 \<rparr> \<and>
   calls \<lparr> g_model = unit_model 1 \<rparr> 4 initial_statics =
     [(- 1, 0, 0), (1, 0, 0), (0, 0, 0), (- 1, 0, 0)]"
  by (simp add: ReekeIndexGenerator_unit calls_unit_1)

text \<open>
  Claim C2. The sequence of indices that successive \<^verbatim>\<open>next()\<close> calls on one generator
  return should depend on its constructor arguments and on the number of its prior
  calls only, so that a new generator begins a fresh traversal whatever has been called
  on other generators. The code does not do this: the cursors of \<^verbatim>\<open>next_pqr\<close> are
  function-local statics, one copy for all generators. Two generators are built from
  the same orientation, axis, beam and resolution, the first with margin 1 and the
  second with margin 0. Alone, the second returns the sentinel at its first call: its
  traversal is empty. After one call on the first, the first call on the second resumes
  the traversal of the first and returns \<open>(1, 0, 0)\<close>.
\<close>

theorem next_after_other_instance:
  "ReekeIndexGenerator [1, 0, 0, 0, 1, 0, 0, 0, 1] [1, 0, 0, 0, 1, 0, 0, 0, 1] (1, 0, 0) (0, 0, 1)
     2 1 = Inr \<lparr> g_model = unit_model 1 \<rparr> \<and>
   ReekeIndexGenerator [1, 0, 0, 0, 1, 0, 0, 0, 1] [1, 0, 0, 0, 1, 0, 0, 0, 1] (1, 0, 0) (0, 0, 1)
     2 0 = Inr \<lparr> g_model = unit_model 0 \<rparr> \<and>
   fst (next_index \<lparr> g_model = unit_model 0 \<rparr> initial_statics) = (0, 0, 0) \<and>
   fst (next_index \<lparr> g_model = unit_model 0 \<rparr>
          (snd (next_index \<lparr> g_model = unit_model 1 \<rparr> initial_statics))) = (1, 0, 0)"
  by (simp add: ReekeIndexGenerator_unit next_unit_0 next_unit_1 next_unit_0_after_1)

subsection \<open>The limits of q\<close>

lemma foldl_min_Min: "foldl min (a::real) xs = Min (set (a # xs))"
proof -
  have "(\<lambda>x s. min s x) = (min :: real \<Rightarrow> real \<Rightarrow> real)"
    by (intro ext) (simp add: min.commute)
  then have "foldl min a xs = fold min xs a"
    by (simp add: foldl_conv_fold)
  also have "\<dots> = Min (set (a # xs))"
    by (rule Min.set_eq_fold[symmetric])
  finally show ?thesis .
qed

lemma foldl_max_Max: "foldl max (a::real) xs = Max (set (a # xs))"
proof -
  have "(\<lambda>x s. max s x) = (max :: real \<Rightarrow> real \<Rightarrow> real)"
    by (intro ext) (simp add: max.commute)
  then have "foldl max a xs = fold max xs a"
    by (simp add: foldl_conv_fold)
  also have "\<dots> = Max (set (a # xs))"
    by (rule Max.set_eq_fold[symmetric])
  finally show ?thesis .
qed

lemma af_min_Min: "xs \<noteq> [] \<Longrightarrow> af_min xs = Min (set xs)"
  by (cases xs) (simp_all add: af_min_def foldl_min_Min del: foldl_Cons)

lemma af_max_Max: "xs \<noteq> [] \<Longrightarrow> af_max xs = Max (set xs)"
  by (cases xs) (simp_all add: af_max_def foldl_max_Max del: foldl_Cons)

text \<open>The roots that \<open>solve_quad\<close> returns are the real roots, unless all coefficients are 0.\<close>

lemma quadratic_square:
  fixes a b c x :: real
  assumes "a \<noteq> 0"
  shows "a * x\<^sup>2 + b * x + c = 0 \<longleftrightarrow> (2 * a * x + b)\<^sup>2 = b * b - 4 * a * c"
proof -
  have "(2 * a * x + b)\<^sup>2 - (b * b - 4 * a * c) = 4 * a * (a * x\<^sup>2 + b * x + c)"
    by (simp add: power2_eq_square algebra_simps)
  then show ?thesis using assms
    by (metis diff_eq_eq eq_iff_diff_eq_0 mult_eq_0_iff zero_neq_numeral add.commute add.right_neutral)
qed

lemma solve_quad_roots:
  assumes "a \<noteq> 0 \<or> b \<noteq> 0 \<or> c \<noteq> 0"
  shows "set (solve_quad a b c) = {x. a * x\<^sup>2 + b * x + c = 0}"
proof (cases "a = 0")
  case True
  show ?thesis
  proof (cases "b = 0")
    case True
    then show ?thesis using \<open>a = 0\<close> assms by (simp add: solve_quad_def)
  next
    case False
    have "b * x + c = 0 \<longleftrightarrow> x = - c / b" for x
      using False by (auto simp: field_simps)
    then show ?thesis using \<open>a = 0\<close> False by (auto simp: solve_quad_def)
  qed
next
  case False
  define d where "d = b * b - 4 * a * c"
  have sq: "a * x\<^sup>2 + b * x + c = 0 \<longleftrightarrow> (2 * a * x + b)\<^sup>2 = d" for x
    unfolding d_def by (rule quadratic_square[OF False])
  consider "d < 0" | "d = 0" | "d > 0" by linarith
  then show ?thesis
  proof cases
    case 1
    have "(2 * a * x + b)\<^sup>2 \<noteq> d" for x
      using 1 zero_le_power2[of "2 * a * x + b"] by linarith
    then show ?thesis using False 1 sq by (simp add: solve_quad_def d_def[symmetric])
  next
    case 2
    have "(2 * a * x + b)\<^sup>2 = d \<longleftrightarrow> x = - b / (2 * a)" for x
      using 2 False by (auto simp: field_simps)
    then show ?thesis using False 2 sq by (auto simp: solve_quad_def d_def[symmetric])
  next
    case 3
    have "(2 * a * x + b)\<^sup>2 = d \<longleftrightarrow>
          x = (- b - sqrt d) / (2 * a) \<or> x = (- b + sqrt d) / (2 * a)" for x
    proof -
      have "(2 * a * x + b)\<^sup>2 = d \<longleftrightarrow> (2 * a * x + b)\<^sup>2 = (sqrt d)\<^sup>2"
        using 3 by simp
      also have "\<dots> \<longleftrightarrow> 2 * a * x + b = sqrt d \<or> 2 * a * x + b = - sqrt d"
        by (rule power2_eq_iff)
      also have "\<dots> \<longleftrightarrow> x = (- b + sqrt d) / (2 * a) \<or> x = (- b - sqrt d) / (2 * a)"
        using False by (auto simp: field_simps)
      finally show ?thesis by blast
    qed
    then have "{x. a * x\<^sup>2 + b * x + c = 0} =
               {(- b - sqrt d) / (2 * a), (- b + sqrt d) / (2 * a)}"
      using sq by auto
    moreover have "set [min u v, max u v] = {u, v}" for u v :: real
      by (auto simp: min_def max_def)
    ultimately show ?thesis
      using False 3 by (simp add: solve_quad_def d_def[symmetric] Let_def)
  qed
qed


text \<open>
  The limits of \<open>q\<close> in the words of the specification: the real roots of the
  resolution quadratic and of the two Ewald quadratics are collected; without
  resolution roots or without Ewald roots there is no range; else the extent of the
  Ewald roots and the extent of the resolution roots, each widened by the margin, give
  four numbers, and the middle two of them in ascending order are the range.
\<close>

definition spec_resolution_q_roots :: "ReekeModel \<Rightarrow> int \<Rightarrow> real list" where
  "spec_resolution_q_roots m p =
     solve_quad (m_cp m ! 9) (2 * of_int p * m_cp m ! 8)
       ((of_int p)\<^sup>2 * m_cp m ! 5 + m_cp m ! 0 * m_dstarmax2 m)"

definition spec_ewald_q_roots_beg :: "ReekeModel \<Rightarrow> int \<Rightarrow> real list" where
  "spec_ewald_q_roots_beg m p =
     solve_quad (m_cp m ! 9) (2 * (m_cp m ! 6 + of_int p * m_cp m ! 8))
       (m_cp m ! 1 + of_int p * (2 * m_cp m ! 3 + of_int p * m_cp m ! 5))"

definition spec_ewald_q_roots_end :: "ReekeModel \<Rightarrow> int \<Rightarrow> real list" where
  "spec_ewald_q_roots_end m p =
     solve_quad (m_cp m ! 9) (2 * (m_cp m ! 7 + of_int p * m_cp m ! 8))
       (m_cp m ! 2 + of_int p * (2 * m_cp m ! 4 + of_int p * m_cp m ! 5))"

definition spec_q_limits :: "ReekeModel \<Rightarrow> int \<Rightarrow> vec2i" where
  "spec_q_limits m p =
     (let res = set (spec_resolution_q_roots m p);
          ewald = set (spec_ewald_q_roots_beg m p) \<union> set (spec_ewald_q_roots_end m p)
      in if res = {} \<or> ewald = {} then (0, 0)
         else
           let limits = sort [int_of_double (Min ewald) - m_margin m,
                              int_of_double (Max ewald) + m_margin m,
                              int_of_double (Min res) - m_margin m,
                              int_of_double (Max res) + m_margin m]
           in (limits ! 1, limits ! 2 + 1))"

lemma resolution_q_limits_spec:
  "resolution_q_limits m p =
     (if spec_resolution_q_roots m p = [] then None
      else Some (int_of_double (Min (set (spec_resolution_q_roots m p))) - m_margin m,
                 int_of_double (Max (set (spec_resolution_q_roots m p))) + m_margin m))"
  by (simp add: resolution_q_limits_def spec_resolution_q_roots_def widen_def Let_def
        af_min_Min af_max_Max power2_eq_square)

lemma ewald_sphere_q_limits_spec:
  "ewald_sphere_q_limits m p =
     (if spec_ewald_q_roots_beg m p = [] \<and> spec_ewald_q_roots_end m p = [] then None
      else Some (int_of_double (Min (set (spec_ewald_q_roots_beg m p)
                                      \<union> set (spec_ewald_q_roots_end m p))) - m_margin m,
                 int_of_double (Max (set (spec_ewald_q_roots_beg m p)
                                      \<union> set (spec_ewald_q_roots_end m p))) + m_margin m))"
proof -
  have *: "af_min (xs @ ys) = Min (set xs \<union> set ys)" "af_max (xs @ ys) = Max (set xs \<union> set ys)"
    if "xs @ ys \<noteq> []" for xs ys :: "real list"
    using af_min_Min[OF that] af_max_Max[OF that] by simp_all
  show ?thesis
    unfolding ewald_sphere_q_limits_def spec_ewald_q_roots_beg_def[symmetric]
      spec_ewald_q_roots_end_def[symmetric] Let_def widen_def
    using * [of "spec_ewald_q_roots_beg m p" "spec_ewald_q_roots_end m p"]
    by auto
qed

lemma q_limits_spec: "q_limits m p = spec_q_limits m p"
proof -
  let ?R = "spec_resolution_q_roots m p"
  let ?B = "spec_ewald_q_roots_beg m p"
  let ?E = "spec_ewald_q_roots_end m p"
  consider (no_res) "?R = []" | (no_ewald) "?R \<noteq> []" "?B = [] \<and> ?E = []"
    | (both) "?R \<noteq> []" "\<not> (?B = [] \<and> ?E = [])"
    by blast
  then show ?thesis
  proof cases
    case no_res
    then show ?thesis
      by (simp add: q_limits_def spec_q_limits_def resolution_q_limits_spec)
  next
    case no_ewald
    then show ?thesis
      by (simp add: q_limits_def spec_q_limits_def resolution_q_limits_spec
            ewald_sphere_q_limits_spec)
  next
    case both
    from both(2) have "?B \<noteq> [] \<or> ?E \<noteq> []" by blast
    then show ?thesis
      using both(1)
      by (elim disjE)
         (simp_all add: q_limits_def spec_q_limits_def resolution_q_limits_spec
            ewald_sphere_q_limits_spec Let_def del: sort_key_simps)
  qed
qed


lemma unit_model_cp:
  "m_cp (unit_model margin) =
     [1, 0, 0, - 1, - 1, - 1, 0, 0, 0, - 1, 0, 0, 1, 1, 0, 0, 0, 0, 0, 2, 2]"
  "m_dstarmax2 (unit_model margin) = 1 / 4"
  "m_margin (unit_model margin) = margin"
  by (simp_all add: unit_model_def)

text \<open>
  The identity orientation with the beam \<open>s0 = (0, 0, 13 / 8)\<close> and \<open>dmin = 4 / 5\<close>. In
  the plane \<open>p = - 1\<close> the Ewald circle meets the \<open>q\<close> axis at \<open>\<plusminus> 3 / 2\<close> and the
  resolution circle at \<open>\<plusminus> 3 / 4\<close>.
\<close>

lemma vlength_long: "vlength (0, 0, - (13 / 8)) = 13 / 8"
  unfolding vlength_def by (rule real_sqrt_unique) (simp_all add: power2_eq_square)

lemma sqrt_nine: "sqrt 9 = 3"
  by (rule real_sqrt_unique) (simp_all add: power2_eq_square)

lemma sqrt_nine_quarters: "sqrt (9 / 4) = 3 / 2"
  by (rule real_sqrt_unique) (simp_all add: power2_eq_square)

lemmas sqrt_values = sqrt_nine sqrt_nine_quarters

definition long_beam_model :: "int \<Rightarrow> ReekeModel" where
  "long_beam_model margin =
     \<lparr> m_permutation = [0, 0, 1, 0, 1, 0, 1, 0, 0],
       m_source = (0, 0, - (13 / 8)), m_axis = (1, 0, 0),
       m_cp = [1, 0, 0, - (13 / 8), - (13 / 8), - 1, 0, 0, 0, - 1, 0, 0, 1, 1, 0, 0, 0, 0, 0,
               13 / 4, 13 / 4],
       m_p_lim = (- margin, margin + 1),
       m_dstarmax = 5 / 4, m_dstarmax2 = 25 / 16,
       m_wavelength = 8 / 13, m_wavelength_sq = 64 / 169,
       m_margin = margin,
       m_ewald_p_lim_beg = (- (13 / 4), 0), m_ewald_p_lim_end = (- (13 / 4), 0),
       m_res_p_lim_beg = (- (25 / 52), - (25 / 52)),
       m_res_p_lim_end = (- (25 / 52), - (25 / 52)) \<rparr>"

lemma permute_matrix_long:
  "permute_matrix [1, 0, 0, 0, 1, 0, 0, 0, 1] [1, 0, 0, 0, 1, 0, 0, 0, 1] (1, 0, 0) (0, 0, - (13 / 8)) =
     \<lparr> pa_index = [2, 1, 0], pa_permutation = [0, 0, 1, 0, 1, 0, 1, 0, 0],
       pm_rlv_beg = [0, 0, 1, 0, 1, 0, 1, 0, 0],
       pm_rlv_end = [0, 0, 1, 0, 1, 0, 1, 0, 0] \<rparr>"
  by (simp add: permute_matrix_def permuted_rows_def permute_axes_def vlength_def
        max_index3 max_index2 swap_def Let_def)

lemma compute_constant_with_p_long:
  "compute_constant_with_p [0, 0, 1, 0, 1, 0, 1, 0, 0] [0, 0, 1, 0, 1, 0, 1, 0, 0]
     (1, 0, 0) (0, 0, - (13 / 8)) =
     [1, 0, 0, - (13 / 8), - (13 / 8), - 1, 0, 0, 0, - 1, 0, 0, 1, 1, 0, 0, 0, 0, 0, 13 / 4, 13 / 4]"
  by (simp add: compute_constant_with_p_def transpose_multiply_344 transpose_def Let_def)

lemma compute_ewald_sphere_p_limits_long:
  "compute_ewald_sphere_p_limits
     \<lparr> m_permutation = perm, m_source = (0, 0, - (13 / 8)), m_axis = axis, m_cp = cp,
       m_p_lim = (0, 0), m_dstarmax = dstarmax, m_dstarmax2 = dstarmax2,
       m_wavelength = wl, m_wavelength_sq = wl2, m_margin = margin,
       m_ewald_p_lim_beg = (0, 0), m_ewald_p_lim_end = (0, 0),
       m_res_p_lim_beg = (0, 0), m_res_p_lim_end = (0, 0) \<rparr> (0, 0, 1) (0, 0, 1)
       (13 / 8) (13 / 8) 1 =
     \<lparr> m_permutation = perm, m_source = (0, 0, - (13 / 8)), m_axis = axis, m_cp = cp,
       m_p_lim = (0, 0), m_dstarmax = dstarmax, m_dstarmax2 = dstarmax2,
       m_wavelength = wl, m_wavelength_sq = wl2, m_margin = margin,
       m_ewald_p_lim_beg = (- (13 / 4), 0), m_ewald_p_lim_end = (- (13 / 4), 0),
       m_res_p_lim_beg = (0, 0), m_res_p_lim_end = (0, 0) \<rparr>"
  by (simp add: compute_ewald_sphere_p_limits_def sign_of_def vlength_long Let_def)

lemma compute_resolution_p_limits_long:
  "compute_resolution_p_limits
     \<lparr> m_permutation = perm, m_source = (0, 0, - (13 / 8)), m_axis = axis, m_cp = cp,
       m_p_lim = (0, 0), m_dstarmax = 5 / 4, m_dstarmax2 = 25 / 16,
       m_wavelength = 8 / 13, m_wavelength_sq = 64 / 169, m_margin = margin,
       m_ewald_p_lim_beg = (- (13 / 4), 0), m_ewald_p_lim_end = (- (13 / 4), 0),
       m_res_p_lim_beg = (0, 0), m_res_p_lim_end = (0, 0) \<rparr> (0, 0, 1) (0, 0, 1)
       (13 / 8) (13 / 8) 1 =
   Inr \<lparr> m_permutation = perm, m_source = (0, 0, - (13 / 8)), m_axis = axis, m_cp = cp,
       m_p_lim = (0, 0), m_dstarmax = 5 / 4, m_dstarmax2 = 25 / 16,
       m_wavelength = 8 / 13, m_wavelength_sq = 64 / 169, m_margin = margin,
       m_ewald_p_lim_beg = (- (13 / 4), 0), m_ewald_p_lim_end = (- (13 / 4), 0),
       m_res_p_lim_beg = (- (25 / 52), - (25 / 52)),
       m_res_p_lim_end = (- (25 / 52), - (25 / 52)) \<rparr>"
  by (simp add: compute_resolution_p_limits_def sign_of_def Let_def)

lemma compute_p_limits_long:
  "compute_p_limits
     \<lparr> m_permutation = perm, m_source = (0, 0, - (13 / 8)), m_axis = axis, m_cp = cp,
       m_p_lim = (0, 0), m_dstarmax = 5 / 4, m_dstarmax2 = 25 / 16,
       m_wavelength = 8 / 13, m_wavelength_sq = 64 / 169, m_margin = margin,
       m_ewald_p_lim_beg = (0, 0), m_ewald_p_lim_end = (0, 0),
       m_res_p_lim_beg = (0, 0), m_res_p_lim_end = (0, 0) \<rparr>
     [0, 0, 1, 0, 1, 0, 1, 0, 0] [0, 0, 1, 0, 1, 0, 1, 0, 0] =
   Inr \<lparr> m_permutation = perm, m_source = (0, 0, - (13 / 8)), m_axis = axis, m_cp = cp,
       m_p_lim = (- margin, margin + 1), m_dstarmax = 5 / 4, m_dstarmax2 = 25 / 16,
       m_wavelength = 8 / 13, m_wavelength_sq = 64 / 169, m_margin = margin,
       m_ewald_p_lim_beg = (- (13 / 4), 0), m_ewald_p_lim_end = (- (13 / 4), 0),
       m_res_p_lim_beg = (- (25 / 52), - (25 / 52)),
       m_res_p_lim_end = (- (25 / 52), - (25 / 52)) \<rparr>"
  unfolding compute_p_limits_def oriented_normal_unit
  by (simp add: get_row_def compute_ewald_sphere_p_limits_long compute_resolution_p_limits_long
        select_p_limits_def sign_of_def af_min_def af_max_def int_of_double_small)

lemma ReekeModel_long:
  "ReekeModel [1, 0, 0, 0, 1, 0, 0, 0, 1] [1, 0, 0, 0, 1, 0, 0, 0, 1] (1, 0, 0) (0, 0, - (13 / 8))
     (4 / 5) margin = Inr (long_beam_model margin)"
  unfolding ReekeModel_def permute_matrix_long
  by (simp add: compute_constant_with_p_long compute_p_limits_long vlength_long long_beam_model_def)

lemma int_of_double_values:
  "int_of_double (- (3 / 2)) = - 1" "int_of_double (3 / 2) = 1"
  "int_of_double (- (3 / 4)) = 0" "int_of_double (3 / 4) = 0"
  by (simp_all add: int_of_double_def ceiling_eq_iff floor_eq_iff)

lemma q_limits_long: "q_limits (long_beam_model 1) (- 1) = (- 1, 2)"
  by (simp add: limits_defs long_beam_model_def sqrt_values int_of_double_values)

lemma long_beam_model_sel:
  "m_cp (long_beam_model margin) =
     [1, 0, 0, - (13 / 8), - (13 / 8), - 1, 0, 0, 0, - 1, 0, 0, 1, 1, 0, 0, 0, 0, 0, 13 / 4, 13 / 4]"
  "m_dstarmax2 (long_beam_model margin) = 25 / 16"
  "m_margin (long_beam_model margin) = margin"
  by (simp_all add: long_beam_model_def)

text \<open>
  Claim C4. For every integer \<open>p\<close>, \<^verbatim>\<open>q_limits(p)\<close> is \<open>(0, 0)\<close> when the resolution
  quadratic has no real root or neither Ewald quadratic has one; otherwise it is the
  middle pair \<open>(limits[1], limits[2] + 1)\<close> of the four sorted endpoints: the extent of
  the union of the Ewald roots and the extent of the resolution roots, each converted to
  integers and widened by the margin. The conversion is \<^verbatim>\<open>(int)\<close>, which rounds towards
  zero. The roots are those that \<open>solve_quad\<close> finds, which are the real roots of the
  quadratic unless all its coefficients are 0.
\<close>

theorem q_limits_middle_pair:
  "q_limits m p = spec_q_limits m p \<and>
   (\<forall>x. int_of_double x = (if 0 \<le> x \<or> x \<in> \<int> then \<lfloor>x\<rfloor> else \<lfloor>x\<rfloor> + 1)) \<and>
   (m_cp m ! 9 \<noteq> 0 \<longrightarrow>
      set (spec_resolution_q_roots m p) =
        {q. m_cp m ! 9 * q\<^sup>2 + 2 * of_int p * m_cp m ! 8 * q
            + ((of_int p)\<^sup>2 * m_cp m ! 5 + m_cp m ! 0 * m_dstarmax2 m) = 0} \<and>
      set (spec_ewald_q_roots_beg m p) =
        {q. m_cp m ! 9 * q\<^sup>2 + 2 * (m_cp m ! 6 + of_int p * m_cp m ! 8) * q
            + (m_cp m ! 1 + of_int p * (2 * m_cp m ! 3 + of_int p * m_cp m ! 5)) = 0} \<and>
      set (spec_ewald_q_roots_end m p) =
        {q. m_cp m ! 9 * q\<^sup>2 + 2 * (m_cp m ! 7 + of_int p * m_cp m ! 8) * q
            + (m_cp m ! 2 + of_int p * (2 * m_cp m ! 4 + of_int p * m_cp m ! 5)) = 0})"
  using int_of_double_floor
  by (simp add: q_limits_spec spec_resolution_q_roots_def spec_ewald_q_roots_beg_def
        spec_ewald_q_roots_end_def solve_quad_roots)

text \<open>
  With margin 1 the extents at \<open>p = - 1\<close> are \<open>(- 2, 2)\<close> and \<open>(- 1, 1)\<close>: the roots
  \<open>- 3 / 2\<close> and \<open>- 3 / 4\<close> are converted to \<open>- 1\<close> and \<open>0\<close>, not to their floors. In the
  first boundary scenario there is no Ewald root at \<open>p = 1\<close>.
\<close>

theorem q_limits_middle_pair_witness:
  "ReekeModel [1, 0, 0, 0, 1, 0, 0, 0, 1] [1, 0, 0, 0, 1, 0, 0, 0, 1] (1, 0, 0) (0, 0, - (13 / 8))
     (4 / 5) 1 = Inr (long_beam_model 1) \<and>
   m_cp (long_beam_model 1) ! 9 \<noteq> 0 \<and>
   q_limits (long_beam_model 1) (- 1) = spec_q_limits (long_beam_model 1) (- 1) \<and>
   q_limits (long_beam_model 1) (- 1) = (- 1, 2) \<and>
   set (spec_resolution_q_roots (long_beam_model 1) (- 1)) = {q. q\<^sup>2 * 16 = 9} \<and>
   set (spec_ewald_q_roots_beg (long_beam_model 1) (- 1)) = {q. q\<^sup>2 * 4 = 9} \<and>
   set (spec_ewald_q_roots_end (long_beam_model 1) (- 1)) = {q. q\<^sup>2 * 4 = 9} \<and>
   int_of_double (- (3 / 2)) = - 1 \<and> int_of_double (- (3 / 2)) = \<lfloor>- (3 / 2) :: real\<rfloor> + 1 \<and>
   int_of_double (- (3 / 4)) = 0 \<and>
   m_cp (unit_model 1) ! 9 \<noteq> 0 \<and>
   q_limits (unit_model 1) 1 = spec_q_limits (unit_model 1) 1 \<and>
   q_limits (unit_model 1) 1 = (0, 0) \<and>
   set (spec_ewald_q_roots_beg (unit_model 1) 1) = {q. - q\<^sup>2 = 3} \<and>
   set (spec_ewald_q_roots_end (unit_model 1) 1) = {q. - q\<^sup>2 = 3}"
  using q_limits_middle_pair[of "long_beam_model 1" "- 1"]
    q_limits_middle_pair[of "unit_model 1" 1]
  by (simp add: ReekeModel_long q_limits_long q_limits_unit_1 long_beam_model_sel unit_model_cp
        int_of_double_values)

subsection \<open>The limits of p\<close>

lemma select_p_limits_p_lim: "select_p_limits (m\<lparr> m_p_lim := x \<rparr>) sign = select_p_limits m sign"
  by (simp add: select_p_limits_def)

lemma select_p_limits_nonempty: "select_p_limits m sign \<noteq> []"
  by (simp add: select_p_limits_def)

text \<open>
  The identity orientation with \<open>dmin = 2 / 3\<close>: the smallest of the four selected
  endpoints is \<open>- 9 / 8\<close>.
\<close>

definition fine_model :: ReekeModel where
  "fine_model =
     \<lparr> m_permutation = [0, 0, 1, 0, 1, 0, 1, 0, 0],
       m_source = (0, 0, - 1), m_axis = (1, 0, 0),
       m_cp = [1, 0, 0, - 1, - 1, - 1, 0, 0, 0, - 1, 0, 0, 1, 1, 0, 0, 0, 0, 0, 2, 2],
       m_p_lim = (- 1, 1),
       m_dstarmax = 3 / 2, m_dstarmax2 = 9 / 4,
       m_wavelength = 1, m_wavelength_sq = 1,
       m_margin = 0,
       m_ewald_p_lim_beg = (- 2, 0), m_ewald_p_lim_end = (- 2, 0),
       m_res_p_lim_beg = (- (9 / 8), - (9 / 8)),
       m_res_p_lim_end = (- (9 / 8), - (9 / 8)) \<rparr>"

lemma compute_resolution_p_limits_fine:
  "compute_resolution_p_limits
     \<lparr> m_permutation = perm, m_source = (0, 0, - 1), m_axis = axis, m_cp = cp,
       m_p_lim = (0, 0), m_dstarmax = 3 / 2, m_dstarmax2 = 9 / 4,
       m_wavelength = 1, m_wavelength_sq = 1, m_margin = margin,
       m_ewald_p_lim_beg = (- 2, 0), m_ewald_p_lim_end = (- 2, 0),
       m_res_p_lim_beg = (0, 0), m_res_p_lim_end = (0, 0) \<rparr> (0, 0, 1) (0, 0, 1) 1 1 1 =
   Inr \<lparr> m_permutation = perm, m_source = (0, 0, - 1), m_axis = axis, m_cp = cp,
       m_p_lim = (0, 0), m_dstarmax = 3 / 2, m_dstarmax2 = 9 / 4,
       m_wavelength = 1, m_wavelength_sq = 1, m_margin = margin,
       m_ewald_p_lim_beg = (- 2, 0), m_ewald_p_lim_end = (- 2, 0),
       m_res_p_lim_beg = (- (9 / 8), - (9 / 8)),
       m_res_p_lim_end = (- (9 / 8), - (9 / 8)) \<rparr>"
  by (simp add: compute_resolution_p_limits_def sign_of_def Let_def)

lemma int_of_double_minus_nine_eighths: "int_of_double (- (9 / 8)) = - 1"
  by (simp add: int_of_double_def ceiling_eq_iff)

lemma compute_p_limits_fine:
  "compute_p_limits
     \<lparr> m_permutation = perm, m_source = (0, 0, - 1), m_axis = axis, m_cp = cp,
       m_p_lim = (0, 0), m_dstarmax = 3 / 2, m_dstarmax2 = 9 / 4,
       m_wavelength = 1, m_wavelength_sq = 1, m_margin = 0,
       m_ewald_p_lim_beg = (0, 0), m_ewald_p_lim_end = (0, 0),
       m_res_p_lim_beg = (0, 0), m_res_p_lim_end = (0, 0) \<rparr>
     [0, 0, 1, 0, 1, 0, 1, 0, 0] [0, 0, 1, 0, 1, 0, 1, 0, 0] =
   Inr \<lparr> m_permutation = perm, m_source = (0, 0, - 1), m_axis = axis, m_cp = cp,
       m_p_lim = (- 1, 1), m_dstarmax = 3 / 2, m_dstarmax2 = 9 / 4,
       m_wavelength = 1, m_wavelength_sq = 1, m_margin = 0,
       m_ewald_p_lim_beg = (- 2, 0), m_ewald_p_lim_end = (- 2, 0),
       m_res_p_lim_beg = (- (9 / 8), - (9 / 8)),
       m_res_p_lim_end = (- (9 / 8), - (9 / 8)) \<rparr>"
  unfolding compute_p_limits_def oriented_normal_unit
  by (simp add: get_row_def compute_ewald_sphere_p_limits_unit compute_resolution_p_limits_fine
        select_p_limits_def sign_of_def af_min_def af_max_def int_of_double_small
        int_of_double_minus_nine_eighths)

lemma ReekeModel_fine:
  "ReekeModel [1, 0, 0, 0, 1, 0, 0, 0, 1] [1, 0, 0, 0, 1, 0, 0, 0, 1] (1, 0, 0) (0, 0, - 1) (2 / 3) 0
     = Inr fine_model"
  unfolding ReekeModel_def permute_matrix_unit
  by (simp add: compute_constant_with_p_unit compute_p_limits_fine vlength_def fine_model_def)

text \<open>
  Claim C7, as amended. The integer interval of \<^verbatim>\<open>p_limits()\<close> is
  \<open>[trunc m - margin, trunc M + margin + 1)\<close>, where \<open>m\<close> and \<open>M\<close> are the minimum and the
  maximum of the four per-side-selected real endpoints (the maximum per side when the
  sign of \<open>v_end \<cdot> source\<close> is negative, the minimum per side otherwise) and \<open>trunc\<close> is
  the conversion \<^verbatim>\<open>(int)\<close>, which rounds towards zero: it is the floor of a value that
  is non-negative or integral, and the floor plus one of a value that is negative and
  not integral.
\<close>

theorem p_limits_truncated:
  assumes "ReekeModel ub_beg ub_end axis source dmin margin = Inr m"
  shows "p_limits m =
           (int_of_double (Min (set (select_p_limits m
              (sign_of (dot (oriented_normal
                 (pm_rlv_end (permute_matrix ub_beg ub_end axis source))) source))))) - margin,
            int_of_double (Max (set (select_p_limits m
              (sign_of (dot (oriented_normal
                 (pm_rlv_end (permute_matrix ub_beg ub_end axis source))) source))))) + margin + 1)
         \<and> (\<forall>x. int_of_double x = (if 0 \<le> x \<or> x \<in> \<int> then \<lfloor>x\<rfloor> else \<lfloor>x\<rfloor> + 1))"
proof -
  let ?re = "pm_rlv_end (permute_matrix ub_beg ub_end axis source)"
  have c: "compute_p_limits
             \<lparr> m_permutation = pa_permutation (permute_matrix ub_beg ub_end axis source),
               m_source = source, m_axis = axis,
               m_cp = compute_constant_with_p
                        (pm_rlv_beg (permute_matrix ub_beg ub_end axis source)) ?re axis source,
               m_p_lim = (0, 0),
               m_dstarmax = 1 / dmin, m_dstarmax2 = 1 / dmin * (1 / dmin),
               m_wavelength = 1 / vlength source,
               m_wavelength_sq = 1 / vlength source * (1 / vlength source),
               m_margin = margin,
               m_ewald_p_lim_beg = (0, 0), m_ewald_p_lim_end = (0, 0),
               m_res_p_lim_beg = (0, 0), m_res_p_lim_end = (0, 0) \<rparr>
             (pm_rlv_beg (permute_matrix ub_beg ub_end axis source)) ?re = Inr m"
    using assms unfolding ReekeModel_def Let_def .
  from compute_p_limits_Inr[OF c]
  obtain m2 where
    m: "m = m2\<lparr> m_p_lim :=
            (int_of_double (af_min (select_p_limits m2
                (sign_of (dot (oriented_normal ?re) (m_source m2))))) - m_margin m2,
             int_of_double (af_max (select_p_limits m2
                (sign_of (dot (oriented_normal ?re) (m_source m2))))) + m_margin m2 + 1) \<rparr>"
    by blast
  have f: "m_source m = source" "m_margin m = margin"
    using compute_p_limits_keeps[OF c] by simp_all
  have f2: "m_source m2 = source" "m_margin m2 = margin"
    using f by (simp_all add: m)
  have s: "select_p_limits m sign = select_p_limits m2 sign" for sign
    by (simp add: m select_p_limits_p_lim)
  have "m_p_lim m =
          (int_of_double (af_min (select_p_limits m2
              (sign_of (dot (oriented_normal ?re) source)))) - margin,
           int_of_double (af_max (select_p_limits m2
              (sign_of (dot (oriented_normal ?re) source)))) + margin + 1)"
    by (simp add: m f2)
  then have "p_limits m =
          (int_of_double (Min (set (select_p_limits m
              (sign_of (dot (oriented_normal ?re) source))))) - margin,
           int_of_double (Max (set (select_p_limits m
              (sign_of (dot (oriented_normal ?re) source))))) + margin + 1)"
    by (simp only: p_limits_def s af_min_Min[OF select_p_limits_nonempty]
          af_max_Max[OF select_p_limits_nonempty])
  moreover have "\<forall>x. int_of_double x = (if 0 \<le> x \<or> x \<in> \<int> then \<lfloor>x\<rfloor> else \<lfloor>x\<rfloor> + 1)"
    using int_of_double_floor by blast
  ultimately show ?thesis by blast
qed


lemma fine_model_limits:
  "select_p_limits fine_model (- 1) = [- (9 / 8), - (9 / 8), 0, 0]"
  "m_margin fine_model = 0" "p_limits fine_model = (- 1, 1)"
  by (simp_all add: select_p_limits_def fine_model_def p_limits_def)

lemma unit_model_limits:
  "select_p_limits (unit_model margin) (- 1) = [- (1 / 8), - (1 / 8), 0, 0]"
  "p_limits (unit_model margin) = (- margin, margin + 1)"
  by (simp_all add: select_p_limits_def unit_model_def p_limits_def)

lemma sign_unit: "sign_of (dot (oriented_normal [0, 0, 1, 0, 1, 0, 1, 0, 0]) (0, 0, - 1)) = - 1"
  by (simp add: oriented_normal_unit sign_of_def)

theorem p_limits_truncated_witness:
  "ReekeModel [1, 0, 0, 0, 1, 0, 0, 0, 1] [1, 0, 0, 0, 1, 0, 0, 0, 1] (1, 0, 0) (0, 0, - 1) 2 1
     = Inr (unit_model 1) \<and>
   select_p_limits (unit_model 1) (- 1) = [- (1 / 8), - (1 / 8), 0, 0] \<and>
   p_limits (unit_model 1) = (int_of_double (- (1 / 8)) - 1, int_of_double 0 + 1 + 1) \<and>
   p_limits (unit_model 1) = (- 1, 2) \<and>
   int_of_double (- (1 / 8)) = \<lfloor>- (1 / 8) :: real\<rfloor> + 1"
  using p_limits_truncated[OF ReekeModel_unit, of 1]
  by (simp add: ReekeModel_unit unit_model_limits permute_matrix_unit sign_unit
        int_of_double_small)

text \<open>
  The claim as stated fails for the identity orientation with \<open>dmin = 2 / 3\<close> and
  margin 0: the minimum of the selected endpoints is \<open>- 9 / 8\<close>, its floor is \<open>- 2\<close>, and
  the lower bound of \<^verbatim>\<open>p_limits()\<close> is \<open>- 1\<close>.
\<close>

theorem p_limits_floor_counterexample:
  "ReekeModel [1, 0, 0, 0, 1, 0, 0, 0, 1] [1, 0, 0, 0, 1, 0, 0, 0, 1] (1, 0, 0) (0, 0, - 1) (2 / 3) 0
     = Inr fine_model \<and>
   sign_of (dot (oriented_normal [0, 0, 1, 0, 1, 0, 1, 0, 0]) (0, 0, - 1)) = - 1 \<and>
   select_p_limits fine_model (- 1) = [- (9 / 8), - (9 / 8), 0, 0] \<and>
   \<lfloor>- (9 / 8) :: real\<rfloor> - m_margin fine_model = - 2 \<and>
   fst (p_limits fine_model) = - 1"
  by (simp add: ReekeModel_fine fine_model_limits sign_unit floor_eq_iff)


subsection \<open>The resolution limits of p\<close>

text \<open>
  The resolution limits of \<open>p\<close> for one orientation in the words of the specification:
  with the oriented plane normal \<open>v\<close> of that orientation, \<open>\<sigma> = sign (v \<cdot> source)\<close>,
  \<open>dp = |v \<cdot> source|\<close>, \<open>sin \<theta> = \<lambda> d*max / 2\<close>, \<open>e = 2 sin\<^sup>2 \<theta> dp\<close> and
  \<open>f = sin 2\<theta> \<surd>(max (1 / \<lambda>\<^sup>2 - dp\<^sup>2) 0)\<close>, the sorted pair of \<open>(\<sigma> e - f) / p_dist\<close> and
  \<open>(\<sigma> e + f) / p_dist\<close>.
\<close>

definition spec_res_p_lim :: "real \<Rightarrow> real \<Rightarrow> vec3 \<Rightarrow> vec3 \<Rightarrow> real \<Rightarrow> vec2" where
  "spec_res_p_lim wavelength dstarmax source v p_dist =
     (let sin_theta = 1 / 2 * wavelength * dstarmax;
          sigma = of_int (sign_of (dot v source));
          dp = \<bar>dot v source\<bar>;
          e = 2 * sin_theta\<^sup>2 * dp;
          f = sin (2 * arcsin sin_theta) * sqrt (max (1 / wavelength\<^sup>2 - dp\<^sup>2) 0)
      in sort2 ((sigma * e - f) / p_dist, (sigma * e + f) / p_dist))"

text \<open>
  The identity orientation at the beginning and the same crystal turned by half a turn
  about the rotation axis at the end, with \<open>dmin = 2\<close> and margin 0.
\<close>

definition flipped_model :: ReekeModel where
  "flipped_model =
     \<lparr> m_permutation = [0, 0, 1, 0, 1, 0, 1, 0, 0],
       m_source = (0, 0, - 1), m_axis = (1, 0, 0),
       m_cp = [1, 0, 0, - 1, 1, - 1, 0, 0, 0, - 1, 0, 0, 1, 1, 0, 0, 0, 0, 0, 2, - 2],
       m_p_lim = (- 2, 1),
       m_dstarmax = 1 / 2, m_dstarmax2 = 1 / 4,
       m_wavelength = 1, m_wavelength_sq = 1,
       m_margin = 0,
       m_ewald_p_lim_beg = (- 2, 0), m_ewald_p_lim_end = (0, 2),
       m_res_p_lim_beg = (1 / 8, 1 / 8),
       m_res_p_lim_end = (1 / 8, 1 / 8) \<rparr>"

lemma oriented_normal_flipped: "oriented_normal [0, 0, - 1, 0, - 1, 0, 1, 0, 0] = (0, 0, - 1)"
  by (simp add: oriented_normal_def get_row_def vlength_def Let_def)

lemma compute_constant_with_p_flipped:
  "compute_constant_with_p [0, 0, 1, 0, 1, 0, 1, 0, 0] [0, 0, - 1, 0, - 1, 0, 1, 0, 0]
     (1, 0, 0) (0, 0, - 1) =
     [1, 0, 0, - 1, 1, - 1, 0, 0, 0, - 1, 0, 0, 1, 1, 0, 0, 0, 0, 0, 2, - 2]"
  by (simp add: compute_constant_with_p_def transpose_multiply_344 transpose_def Let_def)

lemma compute_ewald_sphere_p_limits_flipped:
  "compute_ewald_sphere_p_limits
     \<lparr> m_permutation = perm, m_source = (0, 0, - 1), m_axis = axis, m_cp = cp,
       m_p_lim = (0, 0), m_dstarmax = dstarmax, m_dstarmax2 = dstarmax2,
       m_wavelength = 1, m_wavelength_sq = 1, m_margin = margin,
       m_ewald_p_lim_beg = (0, 0), m_ewald_p_lim_end = (0, 0),
       m_res_p_lim_beg = (0, 0), m_res_p_lim_end = (0, 0) \<rparr> (0, 0, 1) (0, 0, - 1) 1 1 1 =
     \<lparr> m_permutation = perm, m_source = (0, 0, - 1), m_axis = axis, m_cp = cp,
       m_p_lim = (0, 0), m_dstarmax = dstarmax, m_dstarmax2 = dstarmax2,
       m_wavelength = 1, m_wavelength_sq = 1, m_margin = margin,
       m_ewald_p_lim_beg = (- 2, 0), m_ewald_p_lim_end = (0, 2),
       m_res_p_lim_beg = (0, 0), m_res_p_lim_end = (0, 0) \<rparr>"
  by (simp add: compute_ewald_sphere_p_limits_def sign_of_def vlength_def Let_def)

lemma compute_resolution_p_limits_flipped:
  "compute_resolution_p_limits
     \<lparr> m_permutation = perm, m_source = (0, 0, - 1), m_axis = axis, m_cp = cp,
       m_p_lim = (0, 0), m_dstarmax = 1 / 2, m_dstarmax2 = 1 / 4,
       m_wavelength = 1, m_wavelength_sq = 1, m_margin = margin,
       m_ewald_p_lim_beg = (- 2, 0), m_ewald_p_lim_end = (0, 2),
       m_res_p_lim_beg = (0, 0), m_res_p_lim_end = (0, 0) \<rparr> (0, 0, 1) (0, 0, - 1) 1 1 1 =
   Inr \<lparr> m_permutation = perm, m_source = (0, 0, - 1), m_axis = axis, m_cp = cp,
       m_p_lim = (0, 0), m_dstarmax = 1 / 2, m_dstarmax2 = 1 / 4,
       m_wavelength = 1, m_wavelength_sq = 1, m_margin = margin,
       m_ewald_p_lim_beg = (- 2, 0), m_ewald_p_lim_end = (0, 2),
       m_res_p_lim_beg = (1 / 8, 1 / 8),
       m_res_p_lim_end = (1 / 8, 1 / 8) \<rparr>"
  by (simp add: compute_resolution_p_limits_def sign_of_def Let_def)

lemma compute_p_limits_flipped:
  "compute_p_limits
     \<lparr> m_permutation = perm, m_source = (0, 0, - 1), m_axis = axis, m_cp = cp,
       m_p_lim = (0, 0), m_dstarmax = 1 / 2, m_dstarmax2 = 1 / 4,
       m_wavelength = 1, m_wavelength_sq = 1, m_margin = 0,
       m_ewald_p_lim_beg = (0, 0), m_ewald_p_lim_end = (0, 0),
       m_res_p_lim_beg = (0, 0), m_res_p_lim_end = (0, 0) \<rparr>
     [0, 0, 1, 0, 1, 0, 1, 0, 0] [0, 0, - 1, 0, - 1, 0, 1, 0, 0] =
   Inr \<lparr> m_permutation = perm, m_source = (0, 0, - 1), m_axis = axis, m_cp = cp,
       m_p_lim = (- 2, 1), m_dstarmax = 1 / 2, m_dstarmax2 = 1 / 4,
       m_wavelength = 1, m_wavelength_sq = 1, m_margin = 0,
       m_ewald_p_lim_beg = (- 2, 0), m_ewald_p_lim_end = (0, 2),
       m_res_p_lim_beg = (1 / 8, 1 / 8),
       m_res_p_lim_end = (1 / 8, 1 / 8) \<rparr>"
  unfolding compute_p_limits_def oriented_normal_unit oriented_normal_flipped
  by (simp add: get_row_def compute_ewald_sphere_p_limits_flipped
        compute_resolution_p_limits_flipped select_p_limits_def sign_of_def af_min_def
        af_max_def int_of_double_small int_of_double_def)

lemma ReekeModel_flipped:
  "ReekeModel [1, 0, 0, 0, 1, 0, 0, 0, 1] [1, 0, 0, 0, - 1, 0, 0, 0, - 1] (1, 0, 0) (0, 0, - 1) 2 0
     = Inr flipped_model"
  unfolding ReekeModel_def permute_matrix_unit
  by (simp add: compute_constant_with_p_flipped compute_p_limits_flipped vlength_def
        flipped_model_def)

lemma spec_res_p_lim_flipped:
  "spec_res_p_lim 1 (1 / 2) (0, 0, - 1) (0, 0, 1) 1 = (- (1 / 8), - (1 / 8))"
  "spec_res_p_lim 1 (1 / 2) (0, 0, - 1) (0, 0, - 1) 1 = (1 / 8, 1 / 8)"
  by (simp_all add: spec_res_p_lim_def sign_of_def Let_def power2_eq_square)

text \<open>
  Claim C6. The resolution limits of \<open>p\<close> for the begin orientation should take
  \<open>\<sigma>\<close> from \<open>v_beg\<close>. \<^verbatim>\<open>compute_resolution_p_limits\<close> takes it from \<open>v_end\<close> for both
  orientations. For the orientations above the normals are \<open>v_beg = (0, 0, 1)\<close> and
  \<open>v_end = (0, 0, - 1)\<close>, the distance of the planes is 1, and the begin limits of the
  model are \<open>(1 / 8, 1 / 8)\<close> where the formula of the claim gives \<open>(- 1 / 8, - 1 / 8)\<close>;
  the end limits are those of the claim.
\<close>

theorem resolution_p_limits_begin_sign:
  "ReekeModel [1, 0, 0, 0, 1, 0, 0, 0, 1] [1, 0, 0, 0, - 1, 0, 0, 0, - 1] (1, 0, 0) (0, 0, - 1) 2 0
     = Inr flipped_model \<and>
   pm_rlv_beg (permute_matrix [1, 0, 0, 0, 1, 0, 0, 0, 1] [1, 0, 0, 0, - 1, 0, 0, 0, - 1]
                 (1, 0, 0) (0, 0, - 1)) = [0, 0, 1, 0, 1, 0, 1, 0, 0] \<and>
   pm_rlv_end (permute_matrix [1, 0, 0, 0, 1, 0, 0, 0, 1] [1, 0, 0, 0, - 1, 0, 0, 0, - 1]
                 (1, 0, 0) (0, 0, - 1)) = [0, 0, - 1, 0, - 1, 0, 1, 0, 0] \<and>
   oriented_normal [0, 0, 1, 0, 1, 0, 1, 0, 0] = (0, 0, 1) \<and>
   oriented_normal [0, 0, - 1, 0, - 1, 0, 1, 0, 0] = (0, 0, - 1) \<and>
   \<bar>dot (get_row [0, 0, 1, 0, 1, 0, 1, 0, 0] 0) (0, 0, 1)\<bar> = 1 \<and>
   fst (resolution_p_limits flipped_model) = (1 / 8, 1 / 8) \<and>
   spec_res_p_lim (m_wavelength flipped_model) (m_dstarmax flipped_model) (0, 0, - 1) (0, 0, 1) 1
     = (- (1 / 8), - (1 / 8)) \<and>
   snd (resolution_p_limits flipped_model) = (1 / 8, 1 / 8) \<and>
   spec_res_p_lim (m_wavelength flipped_model) (m_dstarmax flipped_model) (0, 0, - 1) (0, 0, - 1) 1
     = (1 / 8, 1 / 8)"
  by (simp add: ReekeModel_flipped permute_matrix_unit oriented_normal_unit
        oriented_normal_flipped get_row_def resolution_p_limits_def flipped_model_def
        spec_res_p_lim_flipped)

section \<open>The prediction drivers\<close>

subsection \<open>Reflection tables\<close>

text \<open>
  A ray of \<^verbatim>\<open>dials::model::Ray\<close>, and the columns of a reflection table that
  \<^verbatim>\<open>prediction_data\<close> holds. A flag word is a \<^verbatim>\<open>std::size_t\<close>.
\<close>

record Ray =
  ray_s1 :: vec3
  ray_angle :: real
  ray_entering :: bool

record prediction_data =
  pd_hkl :: "miller_index list"
  pd_panel :: "nat list"
  pd_enter :: "bool list"
  pd_s1 :: "vec3 list"
  pd_xyz_px :: "vec3 list"
  pd_xyz_mm :: "vec3 list"
  pd_flags :: "nat list"

definition empty_table :: prediction_data where
  "empty_table = \<lparr> pd_hkl = [], pd_panel = [], pd_enter = [], pd_s1 = [], pd_xyz_px = [],
                    pd_xyz_mm = [], pd_flags = [] \<rparr>"

definition nrows :: "prediction_data \<Rightarrow> nat" where
  "nrows t = length (pd_hkl t)"

subsection \<open>The scan static predictor\<close>

text \<open>
  What \<^verbatim>\<open>ScanStaticReflectionPredictor\<close> asks of its members, which are classes of
  other libraries: the ray predictor \<^verbatim>\<open>predict_rays_(h, ub)\<close>; of the scan, the
  oscillation and \<^verbatim>\<open>get_array_index_from_angle\<close>; of the detector,
  \<^verbatim>\<open>detector_[panel].get_ray_intersection(s1)\<close> and
  \<^verbatim>\<open>detector_[panel].millimeter_to_pixel(mm)\<close>, with \<open>None\<close> for a thrown
  \<^verbatim>\<open>dxtbx::error\<close>; and the flag \<^verbatim>\<open>af::Predicted\<close>.
\<close>

record static_predictor =
  sp_predict_rays :: "miller_index \<Rightarrow> mat3 \<Rightarrow> Ray list"
  sp_oscillation :: vec2
  sp_array_index_from_angle :: "real \<Rightarrow> real"
  sp_panel_ray_intersection :: "nat \<Rightarrow> vec3 \<Rightarrow> vec2 option"
  sp_millimeter_to_pixel :: "nat \<Rightarrow> vec2 \<Rightarrow> vec2 option"
  sp_Predicted :: nat

text \<open>The \<^verbatim>\<open>try\<close> block of the per-index prediction: \<open>None\<close> when it throws.\<close>

definition intersect_panel :: "static_predictor \<Rightarrow> nat \<Rightarrow> vec3 \<Rightarrow> (vec2 \<times> vec2) option" where
  "intersect_panel sp panel s1 =
     (case sp_panel_ray_intersection sp panel s1 of
        None \<Rightarrow> None
      | Some mm \<Rightarrow>
          (case sp_millimeter_to_pixel sp panel mm of
             None \<Rightarrow> None
           | Some px \<Rightarrow> Some (mm, px)))"

text \<open>
  The loop over the rays of \<^verbatim>\<open>append_for_index(p, ub, h, entering, panel)\<close> and the
  statements after it.
\<close>

fun append_for_rays ::
  "static_predictor \<Rightarrow> prediction_data \<Rightarrow> Ray list \<Rightarrow> bool \<Rightarrow> nat \<Rightarrow> prediction_data" where
  "append_for_rays sp p [] entering panel =
     p\<lparr> pd_s1 := pd_s1 p @ [(0, 0, 0)],
        pd_xyz_mm := pd_xyz_mm p @ [(0, 0, 0)],
        pd_xyz_px := pd_xyz_px p @ [(0, 0, 0)],
        pd_flags := pd_flags p @ [0] \<rparr>"
| "append_for_rays sp p (ray # rays) entering panel =
     (if ray_entering ray = entering then
        (let frame = sp_array_index_from_angle sp (ray_angle ray)
         in case intersect_panel sp panel (ray_s1 ray) of
              Some (mm, px) \<Rightarrow>
                p\<lparr> pd_s1 := pd_s1 p @ [ray_s1 ray],
                   pd_xyz_mm := pd_xyz_mm p @ [(fst mm, snd mm, ray_angle ray)],
                   pd_xyz_px := pd_xyz_px p @ [(fst px, snd px, frame)],
                   pd_flags := pd_flags p @ [sp_Predicted sp] \<rparr>
            | None \<Rightarrow>
                p\<lparr> pd_s1 := pd_s1 p @ [ray_s1 ray],
                   pd_xyz_mm := pd_xyz_mm p @ [(0, 0, ray_angle ray)],
                   pd_xyz_px := pd_xyz_px p @ [(0, 0, frame)],
                   pd_flags := pd_flags p @ [0] \<rparr>)
      else append_for_rays sp p rays entering panel)"

definition append_for_index ::
  "static_predictor \<Rightarrow> prediction_data \<Rightarrow> mat3 \<Rightarrow> miller_index \<Rightarrow> bool \<Rightarrow> nat
     \<Rightarrow> prediction_data" where
  "append_for_index sp p ub h entering panel =
     append_for_rays sp
       (p\<lparr> pd_hkl := pd_hkl p @ [h],
           pd_enter := pd_enter p @ [entering],
           pd_panel := pd_panel p @ [panel] \<rparr>)
       (sp_predict_rays sp h ub) entering panel"

definition for_hkl_with_individual_ub ::
  "static_predictor \<Rightarrow> miller_index list \<Rightarrow> bool list \<Rightarrow> nat list \<Rightarrow> mat3 list
     \<Rightarrow> error + prediction_data" where
  "for_hkl_with_individual_ub sp h entering panel ub =
     (if length ub \<noteq> length h then Inl (AssertionError ''ub.size() == h.size()'')
      else if length ub \<noteq> length panel then Inl (AssertionError ''ub.size() == panel.size()'')
      else if length ub \<noteq> length entering
        then Inl (AssertionError ''ub.size() == entering.size()'')
      else if \<not> snd (sp_oscillation sp) > 0
        then Inl (AssertionError ''scan_.get_oscillation()[1] > 0.0'')
      else
        let table = foldl (\<lambda>p i. append_for_index sp p (ub ! i) (h ! i) (entering ! i) (panel ! i))
                      empty_table [0..<length h]
        in if nrows table \<noteq> length h then Inl (AssertionError ''table.nrows() == h.size()'')
           else Inr table)"

definition for_hkl ::
  "static_predictor \<Rightarrow> miller_index list \<Rightarrow> bool list \<Rightarrow> nat list \<Rightarrow> mat3
     \<Rightarrow> error + prediction_data" where
  "for_hkl sp h entering panel ub =
     for_hkl_with_individual_ub sp h entering panel (replicate (length h) ub)"

text \<open>
  One row of the table in the words of the claims: the first ray whose entering flag
  is the requested one is selected. Without such a ray the row is all zero. With one,
  the row has its \<open>s1\<close>; its angle and frame are the third coordinates; the first two
  coordinates and the flag depend on whether the requested panel accepts the ray.
\<close>

record reflection =
  r_hkl :: miller_index
  r_panel :: nat
  r_enter :: bool
  r_s1 :: vec3
  r_xyz_px :: vec3
  r_xyz_mm :: vec3
  r_flags :: nat

definition spec_row :: "static_predictor \<Rightarrow> mat3 \<Rightarrow> miller_index \<Rightarrow> bool \<Rightarrow> nat \<Rightarrow> reflection" where
  "spec_row sp ub h entering panel =
     (case find (\<lambda>ray. ray_entering ray = entering) (sp_predict_rays sp h ub) of
        None \<Rightarrow>
          \<lparr> r_hkl = h, r_panel = panel, r_enter = entering, r_s1 = (0, 0, 0),
            r_xyz_px = (0, 0, 0), r_xyz_mm = (0, 0, 0), r_flags = 0 \<rparr>
      | Some ray \<Rightarrow>
          (case intersect_panel sp panel (ray_s1 ray) of
             None \<Rightarrow>
               \<lparr> r_hkl = h, r_panel = panel, r_enter = entering, r_s1 = ray_s1 ray,
                 r_xyz_px = (0, 0, sp_array_index_from_angle sp (ray_angle ray)),
                 r_xyz_mm = (0, 0, ray_angle ray), r_flags = 0 \<rparr>
           | Some (mm, px) \<Rightarrow>
               \<lparr> r_hkl = h, r_panel = panel, r_enter = entering, r_s1 = ray_s1 ray,
                 r_xyz_px = (fst px, snd px, sp_array_index_from_angle sp (ray_angle ray)),
                 r_xyz_mm = (fst mm, snd mm, ray_angle ray), r_flags = sp_Predicted sp \<rparr>))"

definition table_of_rows :: "reflection list \<Rightarrow> prediction_data" where
  "table_of_rows rs =
     \<lparr> pd_hkl = map r_hkl rs, pd_panel = map r_panel rs, pd_enter = map r_enter rs,
       pd_s1 = map r_s1 rs, pd_xyz_px = map r_xyz_px rs, pd_xyz_mm = map r_xyz_mm rs,
       pd_flags = map r_flags rs \<rparr>"

definition push_row :: "prediction_data \<Rightarrow> reflection \<Rightarrow> prediction_data" where
  "push_row p r =
     p\<lparr> pd_hkl := pd_hkl p @ [r_hkl r], pd_panel := pd_panel p @ [r_panel r],
        pd_enter := pd_enter p @ [r_enter r], pd_s1 := pd_s1 p @ [r_s1 r],
        pd_xyz_px := pd_xyz_px p @ [r_xyz_px r], pd_xyz_mm := pd_xyz_mm p @ [r_xyz_mm r],
        pd_flags := pd_flags p @ [r_flags r] \<rparr>"

lemma append_for_rays_row:
  "append_for_rays sp p rays entering panel =
     (case find (\<lambda>ray. ray_entering ray = entering) rays of
        None \<Rightarrow>
          p\<lparr> pd_s1 := pd_s1 p @ [(0, 0, 0)], pd_xyz_mm := pd_xyz_mm p @ [(0, 0, 0)],
             pd_xyz_px := pd_xyz_px p @ [(0, 0, 0)], pd_flags := pd_flags p @ [0] \<rparr>
      | Some ray \<Rightarrow>
          (case intersect_panel sp panel (ray_s1 ray) of
             None \<Rightarrow>
               p\<lparr> pd_s1 := pd_s1 p @ [ray_s1 ray],
                  pd_xyz_mm := pd_xyz_mm p @ [(0, 0, ray_angle ray)],
                  pd_xyz_px := pd_xyz_px p @ [(0, 0, sp_array_index_from_angle sp (ray_angle ray))],
                  pd_flags := pd_flags p @ [0] \<rparr>
           | Some (mm, px) \<Rightarrow>
               p\<lparr> pd_s1 := pd_s1 p @ [ray_s1 ray],
                  pd_xyz_mm := pd_xyz_mm p @ [(fst mm, snd mm, ray_angle ray)],
                  pd_xyz_px := pd_xyz_px p @
                     [(fst px, snd px, sp_array_index_from_angle sp (ray_angle ray))],
                  pd_flags := pd_flags p @ [sp_Predicted sp] \<rparr>))"
  by (induction rays) (auto simp: Let_def split: option.splits)

lemma append_for_index_push:
  "append_for_index sp p ub h entering panel = push_row p (spec_row sp ub h entering panel)"
  unfolding append_for_index_def append_for_rays_row spec_row_def push_row_def
  by (auto split: option.splits)

lemma push_row_table: "push_row (table_of_rows rs) r = table_of_rows (rs @ [r])"
  by (simp add: push_row_def table_of_rows_def)

lemma for_hkl_loop:
  "foldl (\<lambda>p i. append_for_index sp p (ub ! i) (h ! i) (entering ! i) (panel ! i))
     empty_table [0..<n] =
   table_of_rows (map (\<lambda>i. spec_row sp (ub ! i) (h ! i) (entering ! i) (panel ! i)) [0..<n])"
proof (induction n)
  case 0
  show ?case by (simp add: empty_table_def table_of_rows_def)
next
  case (Suc n)
  then show ?case by (simp add: append_for_index_push push_row_table)
qed

lemma nrows_table_of_rows: "nrows (table_of_rows rs) = length rs"
  by (simp add: nrows_def table_of_rows_def)

lemma for_hkl_with_individual_ub_rows:
  assumes "length ub = length h" and "length panel = length h"
    and "length entering = length h" and "snd (sp_oscillation sp) > 0"
  shows "for_hkl_with_individual_ub sp h entering panel ub =
     Inr (table_of_rows
            (map (\<lambda>i. spec_row sp (ub ! i) (h ! i) (entering ! i) (panel ! i)) [0..<length h]))"
  unfolding for_hkl_with_individual_ub_def for_hkl_loop Let_def
  using assms by (simp add: nrows_table_of_rows)

lemma for_hkl_rows:
  assumes "length panel = length h" and "length entering = length h"
    and "snd (sp_oscillation sp) > 0"
  shows "for_hkl sp h entering panel ub =
     Inr (table_of_rows
            (map (\<lambda>i. spec_row sp ub (h ! i) (entering ! i) (panel ! i)) [0..<length h]))"
proof -
  have eq: "map (\<lambda>i. spec_row sp (replicate (length h) ub ! i) (h ! i) (entering ! i) (panel ! i))
          [0..<length h] =
        map (\<lambda>i. spec_row sp ub (h ! i) (entering ! i) (panel ! i)) [0..<length h]"
    by (rule map_cong) simp_all
  have len: "length (replicate (length h) ub) = length h" by simp
  show ?thesis
    unfolding for_hkl_def for_hkl_with_individual_ub_rows[OF len assms] eq ..
qed

text \<open>
  A predictor with one entering ray of angle 1 for every index, on a detector whose
  panels reject every ray.
\<close>

definition rejecting_predictor :: static_predictor where
  "rejecting_predictor =
     \<lparr> sp_predict_rays = (\<lambda>h ub. [\<lparr> ray_s1 = (0, 0, 1), ray_angle = 1, ray_entering = True \<rparr>]),
       sp_oscillation = (0, 1),
       sp_array_index_from_angle = (\<lambda>angle. 2 * angle),
       sp_panel_ray_intersection = (\<lambda>panel s1. None),
       sp_millimeter_to_pixel = (\<lambda>panel mm. Some mm),
       sp_Predicted = 1 \<rparr>"

lemma intersect_panel_rejects:
  "sp_panel_ray_intersection sp panel s1 = None \<Longrightarrow> intersect_panel sp panel s1 = None"
  by (simp add: intersect_panel_def)

lemma find_None_entering:
  "find (\<lambda>ray. ray_entering ray = entering) rays = None \<longleftrightarrow>
   (\<forall>ray \<in> set rays. ray_entering ray \<noteq> entering)"
  by (auto simp: find_None_iff)

text \<open>
  Claim C9. \<^verbatim>\<open>for_hkl\<close> returns a table with exactly one row per requested
  \<open>(h, entering, panel)\<close>, in the order of the requests, for the predicted ray whose
  entering flag is the requested one (the first such ray). When the requested panel
  rejects that ray's \<open>s1\<close>, the row has zero coordinates, that is \<open>x\<close> and \<open>y\<close> of
  \<^verbatim>\<open>xyzcal.mm\<close> and \<^verbatim>\<open>xyzcal.px\<close> are zero while their third slots hold the ray's
  angle and its fractional frame as in every row, and the flags are 0, so \<^verbatim>\<open>Predicted\<close>
  is unset. The assertions of the function hold for request columns of equal length and
  a positive oscillation width.
\<close>

theorem for_hkl_one_row_per_request:
  assumes "length panel = length h" and "length entering = length h"
    and "snd (sp_oscillation sp) > 0"
  shows "for_hkl sp h entering panel ub =
           Inr (table_of_rows
                  (map (\<lambda>i. spec_row sp ub (h ! i) (entering ! i) (panel ! i)) [0..<length h])) \<and>
         nrows (table_of_rows
                  (map (\<lambda>i. spec_row sp ub (h ! i) (entering ! i) (panel ! i)) [0..<length h]))
           = length h \<and>
         (\<forall>i ray. i < length h \<longrightarrow>
            find (\<lambda>ray. ray_entering ray = entering ! i) (sp_predict_rays sp (h ! i) ub) = Some ray \<longrightarrow>
            sp_panel_ray_intersection sp (panel ! i) (ray_s1 ray) = None \<longrightarrow>
            spec_row sp ub (h ! i) (entering ! i) (panel ! i) =
              \<lparr> r_hkl = h ! i, r_panel = panel ! i, r_enter = entering ! i, r_s1 = ray_s1 ray,
                r_xyz_px = (0, 0, sp_array_index_from_angle sp (ray_angle ray)),
                r_xyz_mm = (0, 0, ray_angle ray), r_flags = 0 \<rparr>)"
  using for_hkl_rows[OF assms]
  by (simp add: nrows_table_of_rows spec_row_def intersect_panel_rejects)

theorem for_hkl_one_row_per_request_witness:
  "length [0::nat] = length [(1, 0, 0) :: miller_index] \<and>
   length [True] = length [(1, 0, 0) :: miller_index] \<and>
   snd (sp_oscillation rejecting_predictor) > 0 \<and>
   for_hkl rejecting_predictor [(1, 0, 0)] [True] [0] [1, 0, 0, 0, 1, 0, 0, 0, 1] =
     Inr (table_of_rows
            [spec_row rejecting_predictor [1, 0, 0, 0, 1, 0, 0, 0, 1] (1, 0, 0) True 0]) \<and>
   spec_row rejecting_predictor [1, 0, 0, 0, 1, 0, 0, 0, 1] (1, 0, 0) True 0 =
     \<lparr> r_hkl = (1, 0, 0), r_panel = 0, r_enter = True, r_s1 = (0, 0, 1),
       r_xyz_px = (0, 0, 2), r_xyz_mm = (0, 0, 1), r_flags = 0 \<rparr>"
proof -
  have o: "snd (sp_oscillation rejecting_predictor) > 0"
    by (simp add: rejecting_predictor_def)
  have "for_hkl rejecting_predictor [(1, 0, 0)] [True] [0] [1, 0, 0, 0, 1, 0, 0, 0, 1] =
          Inr (table_of_rows
            [spec_row rejecting_predictor [1, 0, 0, 0, 1, 0, 0, 0, 1] (1, 0, 0) True 0])"
    using for_hkl_one_row_per_request[of "[0]" "[(1, 0, 0)]" "[True]" rejecting_predictor
        "[1, 0, 0, 0, 1, 0, 0, 0, 1]", OF _ _ o]
    by simp
  moreover have "spec_row rejecting_predictor [1, 0, 0, 0, 1, 0, 0, 0, 1] (1, 0, 0) True 0 =
     \<lparr> r_hkl = (1, 0, 0), r_panel = 0, r_enter = True, r_s1 = (0, 0, 1),
       r_xyz_px = (0, 0, 2), r_xyz_mm = (0, 0, 1), r_flags = 0 \<rparr>"
    by (simp add: spec_row_def intersect_panel_def rejecting_predictor_def)
  ultimately show ?thesis using o by simp
qed

text \<open>
  Claim C10. In the per-index prediction of the scan static predictor, if no predicted
  ray has the requested entering flag, the appended row has \<open>s1\<close>, \<^verbatim>\<open>xyzcal.mm\<close> and
  \<^verbatim>\<open>xyzcal.px\<close> all \<open>(0, 0, 0)\<close> and the flags 0. If a ray has the flag and the panel
  rejects it, the third coordinates of \<^verbatim>\<open>xyzcal.mm\<close> and \<^verbatim>\<open>xyzcal.px\<close> are the
  ray's angle and its fractional frame.
\<close>

theorem append_for_index_no_matching_ray:
  "((\<forall>ray \<in> set (sp_predict_rays sp h ub). ray_entering ray \<noteq> entering) \<longrightarrow>
      append_for_index sp p ub h entering panel =
        p\<lparr> pd_hkl := pd_hkl p @ [h], pd_enter := pd_enter p @ [entering],
           pd_panel := pd_panel p @ [panel],
           pd_s1 := pd_s1 p @ [(0, 0, 0)], pd_xyz_mm := pd_xyz_mm p @ [(0, 0, 0)],
           pd_xyz_px := pd_xyz_px p @ [(0, 0, 0)], pd_flags := pd_flags p @ [0] \<rparr>) \<and>
   (\<forall>ray. find (\<lambda>ray. ray_entering ray = entering) (sp_predict_rays sp h ub) = Some ray \<longrightarrow>
      sp_panel_ray_intersection sp panel (ray_s1 ray) = None \<longrightarrow>
      append_for_index sp p ub h entering panel =
        p\<lparr> pd_hkl := pd_hkl p @ [h], pd_enter := pd_enter p @ [entering],
           pd_panel := pd_panel p @ [panel],
           pd_s1 := pd_s1 p @ [ray_s1 ray], pd_xyz_mm := pd_xyz_mm p @ [(0, 0, ray_angle ray)],
           pd_xyz_px := pd_xyz_px p @ [(0, 0, sp_array_index_from_angle sp (ray_angle ray))],
           pd_flags := pd_flags p @ [0] \<rparr>)"
proof (intro conjI impI allI)
  assume "\<forall>ray \<in> set (sp_predict_rays sp h ub). ray_entering ray \<noteq> entering"
  then have "find (\<lambda>ray. ray_entering ray = entering) (sp_predict_rays sp h ub) = None"
    by (simp add: find_None_entering)
  then show "append_for_index sp p ub h entering panel =
        p\<lparr> pd_hkl := pd_hkl p @ [h], pd_enter := pd_enter p @ [entering],
           pd_panel := pd_panel p @ [panel],
           pd_s1 := pd_s1 p @ [(0, 0, 0)], pd_xyz_mm := pd_xyz_mm p @ [(0, 0, 0)],
           pd_xyz_px := pd_xyz_px p @ [(0, 0, 0)], pd_flags := pd_flags p @ [0] \<rparr>"
    by (simp add: append_for_index_def append_for_rays_row)
next
  fix ray
  assume "find (\<lambda>ray. ray_entering ray = entering) (sp_predict_rays sp h ub) = Some ray"
    and "sp_panel_ray_intersection sp panel (ray_s1 ray) = None"
  then show "append_for_index sp p ub h entering panel =
        p\<lparr> pd_hkl := pd_hkl p @ [h], pd_enter := pd_enter p @ [entering],
           pd_panel := pd_panel p @ [panel],
           pd_s1 := pd_s1 p @ [ray_s1 ray], pd_xyz_mm := pd_xyz_mm p @ [(0, 0, ray_angle ray)],
           pd_xyz_px := pd_xyz_px p @ [(0, 0, sp_array_index_from_angle sp (ray_angle ray))],
           pd_flags := pd_flags p @ [0] \<rparr>"
    by (simp add: append_for_index_def append_for_rays_row intersect_panel_rejects)
qed

theorem append_for_index_no_matching_ray_witness:
  "append_for_index rejecting_predictor empty_table [1, 0, 0, 0, 1, 0, 0, 0, 1] (1, 0, 0) False 0 =
     \<lparr> pd_hkl = [(1, 0, 0)], pd_panel = [0], pd_enter = [False], pd_s1 = [(0, 0, 0)],
       pd_xyz_px = [(0, 0, 0)], pd_xyz_mm = [(0, 0, 0)], pd_flags = [0] \<rparr> \<and>
   append_for_index rejecting_predictor empty_table [1, 0, 0, 0, 1, 0, 0, 0, 1] (1, 0, 0) True 0 =
     \<lparr> pd_hkl = [(1, 0, 0)], pd_panel = [0], pd_enter = [True], pd_s1 = [(0, 0, 1)],
       pd_xyz_px = [(0, 0, 2)], pd_xyz_mm = [(0, 0, 1)], pd_flags = [0] \<rparr>"
  using append_for_index_no_matching_ray[of rejecting_predictor "(1, 0, 0)"
      "[1, 0, 0, 0, 1, 0, 0, 0, 1]" False empty_table 0]
    append_for_index_no_matching_ray[of rejecting_predictor "(1, 0, 0)"
      "[1, 0, 0, 0, 1, 0, 0, 0, 1]" True empty_table 0]
  by (simp add: rejecting_predictor_def empty_table_def)

subsection \<open>The scan varying predictor\<close>










































end
